theory Spec2Isabelle
  imports Main "HOL-Library.Sublist" "HOL-Library.Word"
begin

section \<open>JSON values and byte strings\<close>

text \<open>
  A \<open>w_string\<close> is a byte string: \<^typ>\<open>string\<close>, whose length counts bytes.
  A \<open>json_ref\<close> is a JSON value; an object keeps its keys in an association list
  and \<open>get_default\<close> yields the first binding of a key.  Real numbers do not occur in
  any of the modelled code paths and are left out.
\<close>

datatype json =
    JNull
  | JTrue
  | JFalse
  | JInteger int
  | JString string
  | JArray "json list"
  | JObject "(string \<times> json) list"

text \<open>The single quote of the error messages.\<close>

definition sq :: string where
  "sq = [CHR 0x27]"

definition get_default :: "json \<Rightarrow> string \<Rightarrow> json option" where
  "get_default j key = (case j of JObject kvs \<Rightarrow> map_of kvs key | _ \<Rightarrow> None)"

text \<open>
  \<open>json_string_value\<close> and \<open>c_str()\<close> hand out a C string: whoever reads it
  (\<open>strcmp\<close>, \<open>strlen\<close>, the constructor of \<open>std::string\<close>, \<open>%s\<close>) sees the bytes
  before the first NUL.
\<close>

definition c_str :: "string \<Rightarrow> string" where
  "c_str s = takeWhile (\<lambda>c. c \<noteq> CHR 0x00) s"

section \<open>query/dirname.cpp\<close>

subsection \<open>Collaborators declared outside the translated sources\<close>

datatype CaseSensitivity = CaseSensitive | CaseInSensitive

datatype w_query_icmp_op =
    W_QUERY_ICMP_EQ
  | W_QUERY_ICMP_NE
  | W_QUERY_ICMP_GT
  | W_QUERY_ICMP_GE
  | W_QUERY_ICMP_LT
  | W_QUERY_ICMP_LE

record w_query_int_compare =
  op :: w_query_icmp_op
  operand :: int

text \<open>
  What a function raises.  \<open>JsonTypeError\<close> is the exception of a JSON accessor used
  on a value of another type (\<open>asBool\<close>, \<open>asInt\<close>, \<open>json_to_w_string\<close>, \<open>get\<close> of a
  missing key); \<open>NullPointerRead\<close> stands for reading through the null pointer that
  \<open>json_string_value\<close> returns for a value that is not a string, or through a null
  \<open>query\<close>.
\<close>

datatype error =
    QueryParseError string
  | CommandValidationError string
  | QueryExecError string
  | JsonTypeError
  | NullPointerRead

text \<open>
  Modelled from the spec: \<open>eval_int_compare\<close> (\<open>query/intcompare.h\<close>, not among the
  translated sources).  The spec gives the comparators \<open>cmp \<in> {eq, ne, gt, ge, lt, le}\<close>
  and the result \<open>cmp(actualDepth, k)\<close>.
\<close>

fun eval_int_compare :: "int \<Rightarrow> w_query_int_compare \<Rightarrow> bool" where
  "eval_int_compare ival c =
     (case op c of
        W_QUERY_ICMP_EQ \<Rightarrow> ival = operand c
      | W_QUERY_ICMP_NE \<Rightarrow> ival \<noteq> operand c
      | W_QUERY_ICMP_GT \<Rightarrow> ival > operand c
      | W_QUERY_ICMP_GE \<Rightarrow> ival \<ge> operand c
      | W_QUERY_ICMP_LT \<Rightarrow> ival < operand c
      | W_QUERY_ICMP_LE \<Rightarrow> ival \<le> operand c)"

text \<open>
  Modelled from the spec: \<open>parse_int_compare\<close> (\<open>query/intcompare.h\<close>).  The depth
  term is an ordered triple \<open>[depth, cmp, k]\<close> with \<open>cmp\<close> one of the six comparator
  names and \<open>k\<close> an integer; anything else is a parse error, whose message the spec
  does not give.  The first element is not inspected here: \<open>parse\<close> below compares it
  with \<open>depth\<close> itself.
\<close>

definition opname_to_op :: "(string \<times> w_query_icmp_op) list" where
  "opname_to_op =
     [(''eq'', W_QUERY_ICMP_EQ), (''ne'', W_QUERY_ICMP_NE), (''gt'', W_QUERY_ICMP_GT),
      (''ge'', W_QUERY_ICMP_GE), (''lt'', W_QUERY_ICMP_LT), (''le'', W_QUERY_ICMP_LE)]"

definition parse_int_compare :: "json \<Rightarrow> error + w_query_int_compare" where
  "parse_int_compare term =
     (case term of
        JArray [_, JString opname, JInteger k] \<Rightarrow>
          (case map_of opname_to_op opname of
             Some c \<Rightarrow> Inr \<lparr>op = c, operand = k\<rparr>
           | None \<Rightarrow> Inl (QueryParseError ''invalid integer comparator''))
      | _ \<Rightarrow> Inl (QueryParseError ''invalid integer comparator''))"

text \<open>
  Modelled from the spec: \<open>w_string_startswith\<close> and \<open>w_string_startswith_caseless\<close>
  (the string library is not among the translated sources).  The spec says that
  \<open>dirname\<close> tests "starts with" case-sensitively, that \<open>idirname\<close> tests it
  case-insensitively, and that case-insensitivity means agreement after lowercasing;
  bytes are lowercased as the C function \<open>tolower\<close> does in the C locale.
\<close>

definition tolower :: "char \<Rightarrow> char" where
  "tolower c =
     (case map_of (zip ''ABCDEFGHIJKLMNOPQRSTUVWXYZ'' ''abcdefghijklmnopqrstuvwxyz'') c of
        Some l \<Rightarrow> l
      | None \<Rightarrow> c)"

fun w_string_startswith :: "string \<Rightarrow> string \<Rightarrow> bool" where
  "w_string_startswith str [] = True"
| "w_string_startswith [] (p # ps) = False"
| "w_string_startswith (c # cs) (p # ps) = (c = p \<and> w_string_startswith cs ps)"

fun w_string_startswith_caseless :: "string \<Rightarrow> string \<Rightarrow> bool" where
  "w_string_startswith_caseless str [] = True"
| "w_string_startswith_caseless [] (p # ps) = False"
| "w_string_startswith_caseless (c # cs) (p # ps) =
     (tolower c = tolower p \<and> w_string_startswith_caseless cs ps)"

text \<open>
  \<open>ClockSpec\<close> and \<open>Query\<close> (\<open>query/Query.h\<close>), with the fields the translated
  sources read or write; a clock spec whose tag is not \<open>w_cs_clock\<close> is the relative
  one of the spec.  A null \<open>w_string\<close> or \<open>unique_ptr\<close> is \<open>None\<close>.
\<close>

record ClockPosition =
  ticks :: nat
  wallTime :: int

datatype ClockSpec =
    w_cs_clock ClockPosition
  | w_cs_relative int

record Query =
  case_sensitive :: CaseSensitivity
  relative_root :: "string option"
  since_spec :: "ClockSpec option"
  sync_timeout :: int
  dedup_results :: bool
  fieldList :: "string list"

subsection \<open>\<open>is_dir_sep\<close> and \<open>DirNameExpr\<close>\<close>

definition is_dir_sep :: "char \<Rightarrow> bool" where
  "is_dir_sep c = (c = CHR ''/'' \<or> c = CHR 0x5C)"

record DirNameExpr =
  dirname :: string
  depth :: w_query_int_compare
  startswith :: "string \<Rightarrow> string \<Rightarrow> bool"

text \<open>
  The loop of \<open>evaluate\<close>: \<open>for (i = dirname.size() + 1; i < str.size(); i++)\<close>,
  counting the separators it meets in \<open>actual_depth\<close>.
\<close>

function depth_loop :: "string \<Rightarrow> nat \<Rightarrow> int \<Rightarrow> int" where
  "depth_loop str i actual_depth =
     (if i < length str
      then depth_loop str (i + 1)
             (if is_dir_sep (str ! i) then actual_depth + 1 else actual_depth)
      else actual_depth)"
  by pat_completeness auto
termination
  by (relation "measure (\<lambda>(str, i, actual_depth). length str - i)") auto

declare depth_loop.simps [simp del]

definition evaluate :: "DirNameExpr \<Rightarrow> string \<Rightarrow> bool" where
  "evaluate e str =
     (if length str \<le> length (dirname e) then False
      else if length (dirname e) > 0 \<and> \<not> is_dir_sep (str ! length (dirname e)) then False
      else if \<not> startswith e str (dirname e) then False
      else eval_int_compare (depth_loop str (length (dirname e) + 1) 0) (depth e))"

definition parse :: "json \<Rightarrow> CaseSensitivity \<Rightarrow> error + DirNameExpr" where
  "parse term cs =
     (let which = (if cs = CaseInSensitive then ''idirname'' else ''dirname'');
          sw = (if cs = CaseInSensitive then w_string_startswith_caseless
                else w_string_startswith)
      in case term of
           JArray elems \<Rightarrow>
             if length elems < 2 then
               Inl (QueryParseError
                 (''Invalid number of arguments for '' @ sq @ which @ sq @ '' term''))
             else if length elems > 3 then
               Inl (QueryParseError
                 (''Invalid number of arguments for '' @ sq @ which @ sq @ '' term''))
             else
               (case elems ! 1 of
                  JString name \<Rightarrow>
                    if length elems = 3 then
                      (case elems ! 2 of
                         JArray d \<Rightarrow>
                           (case parse_int_compare (JArray d) of
                              Inl err \<Rightarrow> Inl err
                            | Inr depth_comp \<Rightarrow>
                                (case d ! 0 of
                                   JString s \<Rightarrow>
                                     if c_str s \<noteq> ''depth'' then
                                       Inl (QueryParseError
                                         (''Third parameter to '' @ sq @ which @ sq @
                                          '' should be a relational depth term''))
                                     else
                                       Inr \<lparr>dirname = name, depth = depth_comp,
                                            startswith = sw\<rparr>
                                 | _ \<Rightarrow> Inl NullPointerRead))
                       | _ \<Rightarrow>
                           Inl (QueryParseError
                             (''Invalid number of arguments for '' @ sq @ which @ sq @
                              '' term'')))
                    else
                      Inr \<lparr>dirname = name,
                           depth = \<lparr>op = W_QUERY_ICMP_GE, operand = 0\<rparr>,
                           startswith = sw\<rparr>
                | _ \<Rightarrow>
                    Inl (QueryParseError
                      (''Argument 2 to '' @ sq @ which @ sq @ '' must be a string'')))
         | _ \<Rightarrow>
             Inl (QueryParseError (''Expected array for '' @ sq @ which @ sq @ '' term'')))"

definition parseDirName :: "Query \<Rightarrow> json \<Rightarrow> error + DirNameExpr" where
  "parseDirName query term = parse term (case_sensitive query)"

definition parseIDirName :: "Query \<Rightarrow> json \<Rightarrow> error + DirNameExpr" where
  "parseIDirName query term = parse term CaseInSensitive"

text \<open>
  Parsing a term and evaluating it against a whole-name; a term that does not parse
  has no value.
\<close>

definition eval_parsed :: "error + DirNameExpr \<Rightarrow> string \<Rightarrow> error + bool" where
  "eval_parsed p str = (case p of Inl err \<Rightarrow> Inl err | Inr e \<Rightarrow> Inr (evaluate e str))"

text \<open>The words of the spec: the separators of \<open>W[|d|+1 .. end]\<close>, counted.\<close>

definition countSeps :: "string \<Rightarrow> int" where
  "countSeps s = int (length (filter is_dir_sep s))"

definition lowercased :: "string \<Rightarrow> string" where
  "lowercased s = map tolower s"

text \<open>
  The terms of the query surface, \<open>[name, dir]\<close> and \<open>[name, dir, [depth, cmp, k]]\<close>,
  with \<open>cmp\<close> spelled as the parser reads it.
\<close>

fun opname :: "w_query_icmp_op \<Rightarrow> string" where
  "opname W_QUERY_ICMP_EQ = ''eq''"
| "opname W_QUERY_ICMP_NE = ''ne''"
| "opname W_QUERY_ICMP_GT = ''gt''"
| "opname W_QUERY_ICMP_GE = ''ge''"
| "opname W_QUERY_ICMP_LT = ''lt''"
| "opname W_QUERY_ICMP_LE = ''le''"

definition dir_term :: "string \<Rightarrow> string \<Rightarrow> json" where
  "dir_term name d = JArray [JString name, JString d]"

definition dir_depth_term :: "string \<Rightarrow> string \<Rightarrow> w_query_icmp_op \<Rightarrow> int \<Rightarrow> json" where
  "dir_depth_term name d c k =
     JArray [JString name, JString d, JArray [JString ''depth'', JString (opname c), JInteger k]]"

text \<open>
  "W starts with d", as the comparison selected by a case sensitivity decides it.
\<close>

definition starts_with :: "CaseSensitivity \<Rightarrow> string \<Rightarrow> string \<Rightarrow> bool" where
  "starts_with cs W d =
     (case cs of
        CaseSensitive \<Rightarrow> prefix d W
      | CaseInSensitive \<Rightarrow> prefix (lowercased d) (lowercased W))"

section \<open>QueryableView.cpp\<close>

text \<open>
  The base class's member functions.  A generator returns nothing and may raise; the
  query and the context it is given are not read, so they are not modelled.  A
  \<open>time_point\<close> is its distance from the epoch; \<open>ageOut\<close> maps the state of the view
  to its new state.
\<close>

definition timeGenerator :: "error + unit" where
  "timeGenerator = Inl (QueryExecError ''timeGenerator not implemented'')"

definition pathGenerator :: "error + unit" where
  "pathGenerator = Inl (QueryExecError ''pathGenerator not implemented'')"

definition globGenerator :: "error + unit" where
  "globGenerator = Inl (QueryExecError ''globGenerator not implemented'')"

definition allFilesGenerator :: "error + unit" where
  "allFilesGenerator = Inl (QueryExecError ''allFilesGenerator not implemented'')"

definition getLastAgeOutTickValue :: "32 word" where
  "getLastAgeOutTickValue = 0"

definition getLastAgeOutTimeStamp :: int where
  "getLastAgeOutTimeStamp = 0"

definition ageOut :: "'view \<Rightarrow> 'sample \<Rightarrow> int \<Rightarrow> 'view" where
  "ageOut v sample min_age = v"

text \<open>
  Modelled from the spec: \<open>doAnyOfTheseFilesExist\<close>, which the base class declares and
  the concrete views implement.  The spec: true if any of the given paths exists under
  the root.  \<open>exists_under_root\<close> says which paths, relative to the root, exist.
\<close>

definition doAnyOfTheseFilesExist :: "(string \<Rightarrow> bool) \<Rightarrow> string list \<Rightarrow> bool" where
  "doAnyOfTheseFilesExist exists_under_root names = list_ex exists_under_root names"

definition lockFiles :: "string list" where
  "lockFiles = [''.hg/wlock'', ''.git/index.lock'']"

definition isVCSOperationInProgress :: "(string \<Rightarrow> bool) \<Rightarrow> bool" where
  "isVCSOperationInProgress exists_under_root =
     doAnyOfTheseFilesExist exists_under_root lockFiles"

section \<open>The root, its view and its state assertions\<close>

text \<open>
  The state assertions of \<open>cmds/state.cpp\<close>.  A \<open>ClientStateAssertion\<close> is shared:
  the root's queues and the continuations hold \<open>shared_ptr\<close>s to it, a client holds a
  \<open>weak_ptr\<close>.  The model keeps the objects that some \<open>shared_ptr\<close> still owns in a
  store, by address; a pointer is an address, and a \<open>weak_ptr\<close> whose address is not in
  the store is dead.  Every assertion of the store belongs to the one root modelled.
\<close>

datatype ClientStateDisposition = PendingEnter | Asserted | PendingLeave | Done

text \<open>The member \<open>name\<close> is \<open>a_name\<close> here; the member \<open>root\<close> is the one root.\<close>

record ClientStateAssertion =
  a_name :: string
  disposition :: ClientStateDisposition
  enterPayload :: "json option"

text \<open>
  The view's answers to the two virtual calls the translated sources make, and the
  part of \<open>Root\<close> the translated sources read or write: the path, the view, the
  asserted states (\<open>states_\<close>, a queue of assertions for each state name), the
  payloads enqueued on \<open>unilateralResponses\<close>, oldest first, and the transition
  counter.
\<close>

record View =
  view_isVCSOperationInProgress :: bool
  getCurrentClockString :: string

record Root =
  root_path :: string
  view :: View
  assertion_store :: "nat \<rightharpoonup> ClientStateAssertion"
  assertedStates :: "string \<rightharpoonup> nat list"
  unilateralResponses :: "json list"
  stateTransCount :: nat

section \<open>TriggerCommand.cpp\<close>

subsection \<open>Data\<close>

datatype open_flag = O_CREAT | O_WRONLY | O_TRUNC | O_APPEND

datatype trigger_input_style = input_dev_null | input_json | input_name_list

record QueryResult =
  resultsArray :: "json list"
  clockAtStartOfQuery :: ClockPosition
  dedupedFileNames :: "string list"

text \<open>
  What the child is started with: \<open>ChildProcess::Options\<close> and the argument vector.
  The standard input is \<open>/dev/null\<close> or the unlinked temporary file, rewound, with the
  bytes written to it.
\<close>

datatype stdin_stream = DevNull | TempFile string

datatype fd_setup = Dup2_daemon_fd | Open_file string "open_flag set" nat

record spawn_request =
  sr_args :: "json list"
  sr_environment :: "string \<rightharpoonup> string"
  sr_stdin :: stdin_stream
  sr_stdout :: fd_setup
  sr_stderr :: fd_setup
  sr_chdir :: string

text \<open>
  \<open>struct TriggerCommand\<close>, without its thread, its subscriber and its ping event.  The
  member \<open>definition\<close> is \<open>definition_json\<close> here; a running or finished child is the
  request it was started with.
\<close>

record TriggerCommand =
  definition_json :: json
  triggername :: string
  command :: json
  query :: "Query option"
  append_files :: bool
  stdin_style :: trigger_input_style
  max_files_stdin :: nat
  stdout_flags :: "open_flag set"
  stderr_flags :: "open_flag set"
  stdout_name :: string
  stderr_name :: string
  env :: "string \<rightharpoonup> string"
  current_proc :: "spawn_request option"

text \<open>
  The functions and system facts that are declared outside the translated sources:
  the query parser and engine, the JSON encoder, \<open>ChildProcess\<close>, the clock printer,
  the path helpers, and the outcome of each system call.  \<open>write_ok n\<close> says whether
  the \<open>n\<close>-th \<open>write\<close> on the temporary file writes all its bytes.  The platform is a
  64-bit one: \<open>size_t\<close> is \<^typ>\<open>64 word\<close> and \<open>sizeof(char*)\<close> is 8.
\<close>

record collaborators =
  win32 :: bool
  w_query_parse :: "json \<Rightarrow> error + Query option"
  parse_field_list :: "json \<Rightarrow> error + string list"
  w_query_execute :: "Query \<Rightarrow> Root \<Rightarrow> error + QueryResult"
  get_sock_name_legacy :: string
  getArgMax :: "64 word"
  asEnviron_size :: "(string \<rightharpoonup> string) \<Rightarrow> 64 word"
  toClockString :: "ClockPosition \<Rightarrow> string"
  jsonEncodeToStream :: "json \<Rightarrow> string option"
  open_dev_null_ok :: bool
  w_mkstemp_ok :: bool
  write_ok :: "nat \<Rightarrow> bool"
  w_is_path_absolute :: "string \<Rightarrow> bool"
  pathCat :: "string \<Rightarrow> string \<Rightarrow> string"
  child_starts :: "spawn_request \<Rightarrow> bool"

text \<open>
  What a call of \<open>maybeSpawn\<close> or \<open>spawn_command\<close> did beyond changing the trigger, in
  order: the query it executed, the call of \<open>spawn_command\<close> with its result and the
  since-spec it was given, the child it killed and waited for, and the child it created
  or failed to create.  Logging is left out.
\<close>

datatype effect =
    Query_executed Query
  | Spawn_command_called QueryResult "ClockSpec option"
  | Killed_and_waited spawn_request
  | Child_started spawn_request
  | Child_failed spawn_request

subsection \<open>JSON accessors\<close>

definition asBool :: "json \<Rightarrow> error + bool" where
  "asBool j = (case j of JTrue \<Rightarrow> Inr True | JFalse \<Rightarrow> Inr False | _ \<Rightarrow> Inl JsonTypeError)"

definition asInt :: "json \<Rightarrow> error + int" where
  "asInt j = (case j of JInteger i \<Rightarrow> Inr i | _ \<Rightarrow> Inl JsonTypeError)"

definition json_to_w_string :: "json \<Rightarrow> error + string" where
  "json_to_w_string j = (case j of JString s \<Rightarrow> Inr s | _ \<Rightarrow> Inl JsonTypeError)"

text \<open>\<open>name[i]\<close> on a \<open>std::string\<close>: the terminating NUL at \<open>i = size()\<close>.\<close>

definition string_at :: "string \<Rightarrow> nat \<Rightarrow> char" where
  "string_at s i = (if i < length s then s ! i else CHR 0x00)"

text \<open>\<open>strlen\<close> of the C string behind a JSON string: the bytes before the first NUL.\<close>

definition strlen :: "string \<Rightarrow> nat" where
  "strlen s = length (takeWhile (\<lambda>c. c \<noteq> CHR 0x00) s)"

subsection \<open>\<open>parse_redirection\<close>\<close>

text \<open>
  The function writes \<open>*flags\<close> and may assign \<open>name\<close>; it returns both.  \<open>name\<close> is
  the member it was given, which the constructor leaves empty before the call.  The
  assignment \<open>name = json_string_value(ele)\<close> copies the C string of the value.
  \<open>on_win32\<close> says which branch of \<open>#ifdef _WIN32\<close> was compiled.
\<close>

definition parse_redirection ::
  "bool \<Rightarrow> json \<Rightarrow> string \<Rightarrow> string \<Rightarrow> error + (string \<times> open_flag set)" where
  "parse_redirection on_win32 trig name label =
     (case get_default trig label of
        None \<Rightarrow> Inr (name, {})
      | Some ele \<Rightarrow>
          (case ele of
             JString v \<Rightarrow>
               let name1 = c_str v in
               if name1 = [] \<or> string_at name1 0 \<noteq> CHR ''>'' then
                 Inl (CommandValidationError
                   (label @ '': must be prefixed with either > or >>, got '' @ name1))
               else if string_at name1 1 = CHR ''>'' then
                 (if on_win32 then
                    Inl (CommandValidationError
                      (label @ '': Windows does not support O_APPEND''))
                  else Inr (drop 2 name1, {O_CREAT, O_WRONLY} \<union> {O_APPEND}))
               else Inr (drop 1 name1, {O_CREAT, O_WRONLY} \<union> {O_TRUNC})
           | _ \<Rightarrow> Inl (CommandValidationError (label @ '' must be a string''))))"

text \<open>
  The redirection of one descriptor in \<open>spawn_command\<close>: a file when the name is not
  empty, else the daemon's own descriptor.  The file is opened by the \<open>c_str()\<close> of the
  name; the mode \<open>0666\<close> is octal: 438.
\<close>

definition redirect :: "string \<Rightarrow> open_flag set \<Rightarrow> fd_setup" where
  "redirect name flags =
     (if name \<noteq> [] then Open_file (c_str name) flags 438 else Dup2_daemon_fd)"

subsection \<open>\<open>prepare_stdin\<close>\<close>

text \<open>
  Raising and returning are kept apart: \<open>Inl\<close> is an exception that leaves the
  function, \<open>Inr None\<close> is the null stream it returns after a failed system call.
\<close>

definition bind :: "error + 'a \<Rightarrow> ('a \<Rightarrow> error + 'b) \<Rightarrow> error + 'b" where
  "bind r f = (case r of Inl err \<Rightarrow> Inl err | Inr v \<Rightarrow> f v)"

text \<open>
  The loop of the \<open>input_name_list\<close> case: two writes for each name, the \<open>n\<close>-th and
  the next; \<open>buf\<close> is what the file holds so far.
\<close>

fun write_names :: "collaborators \<Rightarrow> json list \<Rightarrow> nat \<Rightarrow> string \<Rightarrow> error + string option" where
  "write_names K [] n buf = Inr (Some buf)"
| "write_names K (name # rest) n buf =
     bind (json_to_w_string name) (\<lambda>nameStr.
       if \<not> write_ok K n \<or> \<not> write_ok K (n + 1) then Inr None
       else write_names K rest (n + 2) (buf @ nameStr @ [CHR 0x0A]))"

definition prepare_stdin ::
  "collaborators \<Rightarrow> TriggerCommand \<Rightarrow> QueryResult \<Rightarrow>
     error + (stdin_stream \<times> QueryResult) option" where
  "prepare_stdin K cmd res =
     (if stdin_style cmd = input_dev_null then
        (if open_dev_null_ok K then Inr (Some (DevNull, res)) else Inr None)
      else
        let res1 =
              (if max_files_stdin cmd > 0 then
                 (let fileList = resultsArray res;
                      n_files = min (max_files_stdin cmd) (length fileList)
                  in res\<lparr>resultsArray := take (min (length fileList) n_files) fileList\<rparr>)
               else res)
        in if \<not> w_mkstemp_ok K then Inr None
           else
             (case stdin_style cmd of
                input_json \<Rightarrow>
                  (case jsonEncodeToStream K (JArray (resultsArray res1)) of
                     None \<Rightarrow> Inr None
                   | Some bytes \<Rightarrow> Inr (Some (TempFile bytes, res1)))
              | input_name_list \<Rightarrow>
                  bind (write_names K (resultsArray res1) 0 [])
                    (\<lambda>written. case written of
                        None \<Rightarrow> Inr None
                      | Some buf \<Rightarrow> Inr (Some (TempFile buf, res1)))
              | input_dev_null \<Rightarrow> Inr (Some (TempFile [], res1))))"

subsection \<open>\<open>spawn_command\<close>\<close>

definition json_array_elems :: "json \<Rightarrow> json list" where
  "json_array_elems j = (case j of JArray xs \<Rightarrow> xs | _ \<Rightarrow> [])"

definition json_array_append_new :: "json \<Rightarrow> json \<Rightarrow> json" where
  "json_array_append_new j v = (case j of JArray xs \<Rightarrow> JArray (xs @ [v]) | _ \<Rightarrow> j)"

text \<open>
  "Measure how much space the base args take up": the first loop of the
  \<open>append_files\<close> block, on \<open>size_t\<close>, where subtraction wraps around.
\<close>

fun measure_base_args :: "json list \<Rightarrow> 64 word \<Rightarrow> error + 64 word" where
  "measure_base_args [] argspace_remaining = Inr argspace_remaining"
| "measure_base_args (ele # rest) argspace_remaining =
     (case ele of
        JString s \<Rightarrow>
          measure_base_args rest (argspace_remaining - of_nat (strlen s + 1 + 8))
      | _ \<Rightarrow> Inl NullPointerRead)"

text \<open>
  The loop over \<open>res->dedupedFileNames\<close>.  \<open>size\<close> is a \<open>uint32_t\<close>; the comparison
  and the subtraction convert it to \<open>size_t\<close>.  The loop leaves with \<open>file_overflow\<close>
  set at the first name that does not fit.
\<close>

fun append_loop :: "string list \<Rightarrow> 64 word \<Rightarrow> json \<Rightarrow> bool \<Rightarrow> 64 word \<times> json \<times> bool" where
  "append_loop [] argspace_remaining args file_overflow =
     (argspace_remaining, args, file_overflow)"
| "append_loop (item # items) argspace_remaining args file_overflow =
     (let size = (of_nat (length item + 1 + 8) :: 32 word) in
      if argspace_remaining < ucast size then (argspace_remaining, args, True)
      else append_loop items (argspace_remaining - ucast size)
             (json_array_append_new args (JString item)) file_overflow)"

definition compute_args ::
  "collaborators \<Rightarrow> TriggerCommand \<Rightarrow> QueryResult \<Rightarrow> (string \<rightharpoonup> string) \<Rightarrow> 64 word \<Rightarrow> bool \<Rightarrow>
     error + (json \<times> bool)" where
  "compute_args K cmd res environment argspace_remaining file_overflow =
     (let args = command cmd in
      if append_files cmd then
        bind (measure_base_args (json_array_elems args) argspace_remaining) (\<lambda>a1.
          let a2 = a1 - asEnviron_size K environment;
              (a3, args', file_overflow') =
                 append_loop (dedupedFileNames res) a2 args file_overflow
          in Inr (args', file_overflow'))
      else Inr (args, file_overflow))"

text \<open>
  Modelled from the spec: \<open>Environment::setBool\<close> (\<open>ChildProcess.h\<close>), which the spec
  describes as setting the variable to \<open>"true"\<close> or \<open>"false"\<close>.
\<close>

definition setBool :: "(string \<rightharpoonup> string) \<Rightarrow> string \<Rightarrow> bool \<Rightarrow> (string \<rightharpoonup> string)" where
  "setBool e key b = e(key \<mapsto> (if b then ''true'' else ''false''))"

definition spawn_environment ::
  "collaborators \<Rightarrow> TriggerCommand \<Rightarrow> Query \<Rightarrow> QueryResult \<Rightarrow> ClockSpec option \<Rightarrow>
     (string \<rightharpoonup> string)" where
  "spawn_environment K cmd q res since =
     (let e1 = (case since of
                  Some (w_cs_clock position) \<Rightarrow>
                    (env cmd)(''WATCHMAN_SINCE'' \<mapsto> toClockString K position)
                | _ \<Rightarrow> (env cmd)(''WATCHMAN_SINCE'' := None));
          e2 = e1(''WATCHMAN_CLOCK'' \<mapsto> toClockString K (clockAtStartOfQuery res))
      in case relative_root q of
           Some rr \<Rightarrow> e2(''WATCHMAN_RELATIVE_ROOT'' \<mapsto> rr)
         | None \<Rightarrow> e2(''WATCHMAN_RELATIVE_ROOT'' := None))"

definition working_directory ::
  "collaborators \<Rightarrow> Root \<Rightarrow> TriggerCommand \<Rightarrow> Query \<Rightarrow> error + string" where
  "working_directory K root cmd q =
     (let working_dir = (case relative_root q of Some rr \<Rightarrow> rr | None \<Rightarrow> root_path root) in
      case get_default (definition_json cmd) ''chdir'' of
        None \<Rightarrow> Inr working_dir
      | Some cwd \<Rightarrow>
          bind (json_to_w_string cwd) (\<lambda>target.
            if w_is_path_absolute K target then Inr target
            else Inr (pathCat K working_dir target)))"

text \<open>
  \<open>spawn_command\<close> returns nothing; the model returns the trigger as it leaves it
  and what it did to child processes.  \<open>since\<close> is the parameter \<open>since_spec\<close>.  A null stream from \<open>prepare_stdin\<close> ends it
  before it touches the environment.
\<close>

definition spawn_command ::
  "collaborators \<Rightarrow> Root \<Rightarrow> TriggerCommand \<Rightarrow> QueryResult \<Rightarrow> ClockSpec option \<Rightarrow>
     error + (TriggerCommand \<times> effect list)" where
  "spawn_command K root cmd res since =
     (let arg_max = getArgMax K;
          argspace_remaining = arg_max - 32;
          file_overflow =
            (max_files_stdin cmd > 0 \<and> length (resultsArray res) > max_files_stdin cmd)
      in bind (prepare_stdin K cmd res) (\<lambda>prepared.
           case prepared of
             None \<Rightarrow> Inr (cmd, [])
           | Some (stdin_file, res1) \<Rightarrow>
               (case query cmd of
                  None \<Rightarrow> Inl NullPointerRead
                | Some q \<Rightarrow>
                    let e3 = spawn_environment K cmd q res1 since in
                    bind (compute_args K cmd res1 e3 argspace_remaining file_overflow)
                      (\<lambda>(args, file_overflow').
                        let e4 = setBool e3 ''WATCHMAN_FILES_OVERFLOW'' file_overflow' in
                        bind (working_directory K root cmd q) (\<lambda>working_dir.
                          let request =
                                \<lparr>sr_args = json_array_elems args, sr_environment = e4,
                                   sr_stdin = stdin_file,
                                   sr_stdout = redirect (stdout_name cmd) (stdout_flags cmd),
                                   sr_stderr = redirect (stderr_name cmd) (stderr_flags cmd),
                                   sr_chdir = c_str working_dir\<rparr>;
                              killed = (case current_proc cmd of
                                          Some p \<Rightarrow> [Killed_and_waited p]
                                        | None \<Rightarrow> [])
                          in if child_starts K request then
                               Inr (cmd\<lparr>env := e4, current_proc := Some request\<rparr>,
                                    killed @ [Child_started request])
                             else
                               Inr (cmd\<lparr>env := e4\<rparr>, killed @ [Child_failed request]))))))"

subsection \<open>The constructor \<open>TriggerCommand::TriggerCommand\<close>\<close>

text \<open>
  \<open>daemon_environment\<close> is the environment a fresh \<open>ChildProcess::Environment\<close>
  starts from.  The constructor raises, or returns the object; where \<open>w_query_parse\<close>
  hands back a null query it returns the object with the members its initialiser list
  gave it.
\<close>

definition initial_command :: "(string \<rightharpoonup> string) \<Rightarrow> json \<Rightarrow> TriggerCommand" where
  "initial_command daemon_environment trig =
     \<lparr>definition_json = trig, triggername = [], command = JNull, query = None,
        append_files = False, stdin_style = input_dev_null, max_files_stdin = 0,
        stdout_flags = {}, stderr_flags = {}, stdout_name = [], stderr_name = [],
        env = daemon_environment, current_proc = None\<rparr>"

definition queryDef_of :: "json \<Rightarrow> json" where
  "queryDef_of def =
     JObject
       ((case get_default def ''expression'' of
           Some expr \<Rightarrow> [(''expression'', expr)]
         | None \<Rightarrow> []) @
        (case get_default def ''relative_root'' of
           Some rr \<Rightarrow> [(''relative_root'', rr)]
         | None \<Rightarrow> []))"

text \<open>The \<open>stdin\<close> property: the input style, and the field list of the query.\<close>

definition parse_stdin_property ::
  "collaborators \<Rightarrow> json \<Rightarrow> Query \<Rightarrow> error + (trigger_input_style \<times> Query)" where
  "parse_stdin_property K def q =
     (case get_default def ''stdin'' of
        None \<Rightarrow> Inr (input_dev_null, q)
      | Some ele \<Rightarrow>
          (case ele of
             JArray _ \<Rightarrow>
               bind (parse_field_list K ele) (\<lambda>fl. Inr (input_json, q\<lparr>fieldList := fl\<rparr>))
           | JString str \<Rightarrow>
               if c_str str = ''/dev/null'' then Inr (input_dev_null, q)
               else if c_str str = ''NAME_PER_LINE'' then
                 bind (parse_field_list K (JArray [JString ''name'']))
                   (\<lambda>fl. Inr (input_name_list, q\<lparr>fieldList := fl\<rparr>))
               else Inl (CommandValidationError (''invalid stdin value '' @ c_str str))
           | _ \<Rightarrow> Inl (CommandValidationError ''invalid value for stdin'')))"

definition TriggerCommand_ctor ::
  "collaborators \<Rightarrow> (string \<rightharpoonup> string) \<Rightarrow> Root \<Rightarrow> json \<Rightarrow> error + TriggerCommand" where
  "TriggerCommand_ctor K daemon_environment root trig =
     (let c0 = initial_command daemon_environment trig in
      bind (w_query_parse K (queryDef_of trig)) (\<lambda>parsed.
        case parsed of
          None \<Rightarrow> Inr c0
        | Some q0 \<Rightarrow>
            (case get_default trig ''name'' of
               Some (JString name) \<Rightarrow>
                 (case get_default trig ''command'' of
                    Some (JArray (arg0 # argv)) \<Rightarrow>
                      bind (asBool (case get_default trig ''append_files'' of
                                      Some b \<Rightarrow> b
                                    | None \<Rightarrow> JFalse)) (\<lambda>af.
                        let q1 = (if af then q0\<lparr>dedup_results := True\<rparr> else q0) in
                        bind (parse_stdin_property K trig q1) (\<lambda>(style, q2).
                          bind (asInt (case get_default trig ''max_files_stdin'' of
                                         Some i \<Rightarrow> i
                                       | None \<Rightarrow> JInteger 0)) (\<lambda>ival.
                            if ival < 0 then
                              Inl (CommandValidationError ''max_files_stdin must be >= 0'')
                            else
                              bind (parse_redirection (win32 K) trig (stdout_name c0) ''stdout'')
                                (\<lambda>(out_name, out_flags).
                                  bind (parse_redirection (win32 K) trig (stderr_name c0) ''stderr'')
                                    (\<lambda>(err_name, err_flags).
                                      Inr (c0\<lparr>triggername := name,
                                             command := JArray (arg0 # argv),
                                             query := Some q2,
                                             append_files := af,
                                             stdin_style := style,
                                             max_files_stdin := nat ival,
                                             stdout_flags := out_flags,
                                             stderr_flags := err_flags,
                                             stdout_name := out_name,
                                             stderr_name := err_name,
                                             env := (env c0)
                                               (''WATCHMAN_ROOT'' \<mapsto> root_path root,
                                                ''WATCHMAN_SOCK'' \<mapsto> get_sock_name_legacy K,
                                                ''WATCHMAN_TRIGGER'' \<mapsto> name)\<rparr>))))))
                  | _ \<Rightarrow> Inl (CommandValidationError ''invalid command array''))
             | _ \<Rightarrow> Inl (CommandValidationError ''invalid or missing name''))))"

subsection \<open>\<open>TriggerCommand::maybeSpawn\<close>\<close>

text \<open>
  The result is \<open>didRun\<close>, the trigger as the call leaves it, and what the call did, in
  order.  Only \<open>QueryExecError\<close> is caught; any other exception leaves the function.
\<close>

definition catch_QueryExecError ::
  "TriggerCommand \<Rightarrow> effect list \<Rightarrow> error \<Rightarrow> error + (bool \<times> TriggerCommand \<times> effect list)" where
  "catch_QueryExecError cmd effs err =
     (case err of QueryExecError msg \<Rightarrow> Inr (False, cmd, effs) | _ \<Rightarrow> Inl err)"

definition maybeSpawn ::
  "collaborators \<Rightarrow> Root \<Rightarrow> TriggerCommand \<Rightarrow> error + (bool \<times> TriggerCommand \<times> effect list)" where
  "maybeSpawn K root cmd =
     (if view_isVCSOperationInProgress (view root) then Inr (False, cmd, [])
      else
        case query cmd of
          None \<Rightarrow> Inl NullPointerRead
        | Some q \<Rightarrow>
            let q1 = q\<lparr>sync_timeout := 0\<rparr>;
                cmd1 = cmd\<lparr>query := Some q1\<rparr>
            in case w_query_execute K q1 root of
                 Inl err \<Rightarrow> catch_QueryExecError cmd1 [Query_executed q1] err
               | Inr res \<Rightarrow>
                   let saved_spec = since_spec q1;
                       q2 = q1\<lparr>since_spec := Some (w_cs_clock (clockAtStartOfQuery res))\<rparr>;
                       cmd2 = cmd1\<lparr>query := Some q2\<rparr>
                   in if resultsArray res \<noteq> [] then
                        (case spawn_command K root cmd2 res saved_spec of
                           Inl err \<Rightarrow>
                             catch_QueryExecError cmd2
                               [Query_executed q1, Spawn_command_called res saved_spec] err
                         | Inr (cmd3, did) \<Rightarrow>
                             Inr (True, cmd3,
                                  [Query_executed q1, Spawn_command_called res saved_spec]
                                  @ did))
                      else Inr (False, cmd2, [Query_executed q1]))"

section \<open>cmds/state.cpp\<close>

subsection \<open>Data\<close>

text \<open>
  \<open>struct state_arg\<close>; its members \<open>name\<close>, \<open>sync_timeout\<close> and \<open>metadata\<close> carry the
  prefix \<open>sa_\<close> here.  A null \<open>json_ref\<close> is \<open>None\<close>.
\<close>

record state_arg =
  sa_name :: string
  sa_sync_timeout :: int
  sa_metadata :: "json option"

text \<open>
  What a client is sent, oldest first, and its map from state names to weak pointers.
  The fields \<open>make_response\<close> puts into every response are left out of \<open>Response\<close>.
\<close>

datatype pdu = Error_response string | Response json

record watchman_user_client =
  states :: "string \<rightharpoonup> nat"
  sent :: "pdu list"

definition send_error_response :: "watchman_user_client \<Rightarrow> string \<Rightarrow> watchman_user_client" where
  "send_error_response client msg = client\<lparr>sent := sent client @ [Error_response msg]\<rparr>"

definition send_and_dispose_response :: "watchman_user_client \<Rightarrow> json \<Rightarrow> watchman_user_client" where
  "send_and_dispose_response client response = client\<lparr>sent := sent client @ [Response response]\<rparr>"

text \<open>\<open>%zu\<close> prints a size in decimal digits.\<close>

definition digit_char :: "nat \<Rightarrow> char" where
  "digit_char d = ''0123456789'' ! d"

fun print_size :: "nat \<Rightarrow> string" where
  "print_size n =
     (if n < 10 then [digit_char n]
      else print_size (n div 10) @ [digit_char (n mod 10)])"

declare print_size.simps [simp del]

definition json_array_size :: "json \<Rightarrow> nat" where
  "json_array_size j = (case j of JArray xs \<Rightarrow> length xs | _ \<Rightarrow> 0)"

text \<open>\<open>json_ref::get\<close>: the value of a key, raising where the key is missing.\<close>

definition json_get :: "json \<Rightarrow> string \<Rightarrow> error + json" where
  "json_get j key = (case get_default j key of Some v \<Rightarrow> Inr v | None \<Rightarrow> Inl JsonTypeError)"

subsection \<open>The asserted states of a root\<close>

definition set_disposition :: "Root \<Rightarrow> nat \<Rightarrow> ClientStateDisposition \<Rightarrow> Root" where
  "set_disposition root a d =
     (case assertion_store root a of
        Some obj \<Rightarrow> root\<lparr>assertion_store := (assertion_store root)(a \<mapsto> obj\<lparr>disposition := d\<rparr>)\<rparr>
      | None \<Rightarrow> root)"

definition set_enterPayload :: "Root \<Rightarrow> nat \<Rightarrow> json option \<Rightarrow> Root" where
  "set_enterPayload root a p =
     (case assertion_store root a of
        Some obj \<Rightarrow> root\<lparr>assertion_store := (assertion_store root)(a \<mapsto> obj\<lparr>enterPayload := p\<rparr>)\<rparr>
      | None \<Rightarrow> root)"

definition enqueue :: "Root \<Rightarrow> json \<Rightarrow> Root" where
  "enqueue root payload = root\<lparr>unilateralResponses := unilateralResponses root @ [payload]\<rparr>"

text \<open>
  Modelled from the spec: \<open>ClientStateAssertions::isFront\<close> (declared with \<open>Root\<close>, not
  among the translated sources): whether the assertion is the head of the FIFO of its
  state name.
\<close>

definition isFront :: "Root \<Rightarrow> nat \<Rightarrow> bool" where
  "isFront root a =
     (case assertion_store root a of
        None \<Rightarrow> False
      | Some obj \<Rightarrow>
          (case assertedStates root (a_name obj) of
             Some (front # rest) \<Rightarrow> front = a
           | _ \<Rightarrow> False))"

text \<open>
  Modelled from the spec: \<open>ClientStateAssertions::removeAssertion\<close> (not among the
  translated sources).  The spec: the assertion leaves the FIFO and is \<open>Done\<close>; if it
  had a deferred \<open>enterPayload\<close> and the new head is \<open>Asserted\<close>, the deferred payload
  of the new head is broadcast.  A payload that was broadcast is no longer stored.
\<close>

definition removeAssertion :: "Root \<Rightarrow> nat \<Rightarrow> Root" where
  "removeAssertion root a =
     (case assertion_store root a of
        None \<Rightarrow> root
      | Some obj \<Rightarrow>
          (case assertedStates root (a_name obj) of
             None \<Rightarrow> root
           | Some queue \<Rightarrow>
               if a \<notin> set queue then root
               else
                 let root1 = set_disposition root a Done in
                 (case remove1 a queue of
                    [] \<Rightarrow> root1\<lparr>assertedStates := (assertedStates root1)(a_name obj := None)\<rparr>
                  | front # rest \<Rightarrow>
                      let root2 = root1\<lparr>assertedStates :=
                                    (assertedStates root1)(a_name obj \<mapsto> front # rest)\<rparr>
                      in (case assertion_store root2 front of
                            None \<Rightarrow> root2
                          | Some fobj \<Rightarrow>
                              (case enterPayload fobj of
                                 Some payload \<Rightarrow>
                                   if enterPayload obj \<noteq> None \<and> disposition fobj = Asserted
                                   then set_enterPayload (enqueue root2 payload) front None
                                   else root2
                               | None \<Rightarrow> root2)))))"

subsection \<open>\<open>parse_state_arg\<close>\<close>

text \<open>
  The function returns false after it has sent an error response (\<open>None\<close> here), true
  with the parsed arguments, or is left by the exception of a JSON accessor.
  \<open>default_sync\<close> is \<open>DEFAULT_QUERY_SYNC_MS\<close>.
\<close>

definition parse_state_arg ::
  "int \<Rightarrow> watchman_user_client \<Rightarrow> json \<Rightarrow> error + (watchman_user_client \<times> state_arg option)" where
  "parse_state_arg default_sync client args =
     (if json_array_size args \<noteq> 3 then
        Inr (send_error_response client
               (''invalid number of arguments, expected 3, got '' @
                print_size (json_array_size args)),
             None)
      else
        let state_args = json_array_elems args ! 2 in
        case state_args of
          JString s \<Rightarrow>
            Inr (client, Some \<lparr>sa_name = s, sa_sync_timeout = default_sync, sa_metadata = None\<rparr>)
        | _ \<Rightarrow>
            bind (json_get state_args ''name'') (\<lambda>n.
              bind (json_to_w_string n) (\<lambda>nm.
                bind (asInt (case get_default state_args ''sync_timeout'' of
                               Some t \<Rightarrow> t
                             | None \<Rightarrow> JInteger default_sync)) (\<lambda>timeout.
                  if timeout < 0 then
                    Inr (send_error_response client ''sync_timeout must be >= 0'', None)
                  else
                    Inr (client,
                         Some \<lparr>sa_name = nm, sa_sync_timeout = timeout,
                               sa_metadata = get_default state_args ''metadata''\<rparr>)))))"

subsection \<open>The completion of the cookie sync of \<open>cmd_state_enter\<close>\<close>

text \<open>
  The function given to \<open>thenTry\<close>: \<open>ok\<close> says whether the sync has a value; \<open>assertion\<close>,
  \<open>parsed\<close> and the root are its captures.  The block under the lock is one step.
\<close>

definition state_enter_payload :: "Root \<Rightarrow> state_arg \<Rightarrow> json" where
  "state_enter_payload root parsed =
     JObject
       ([(''root'', JString (root_path root)),
         (''clock'', JString (getCurrentClockString (view root))),
         (''state-enter'', JString (sa_name parsed))] @
        (case sa_metadata parsed of Some m \<Rightarrow> [(''metadata'', m)] | None \<Rightarrow> []))"

definition state_enter_sync_done :: "bool \<Rightarrow> nat \<Rightarrow> state_arg \<Rightarrow> Root \<Rightarrow> Root" where
  "state_enter_sync_done ok assertion parsed root =
     (if \<not> ok then removeAssertion root assertion
      else
        let payload = state_enter_payload root parsed;
            root1 = set_disposition root assertion Asserted
        in if isFront root1 assertion then enqueue root1 payload
           else set_enterPayload root1 assertion (Some payload))"

subsection \<open>\<open>leave_state\<close> and \<open>cmd_state_leave\<close>\<close>

definition state_leave_payload :: "Root \<Rightarrow> string \<Rightarrow> json option \<Rightarrow> bool \<Rightarrow> json" where
  "state_leave_payload root nm metadata abandoned =
     JObject
       ([(''root'', JString (root_path root)),
         (''clock'', JString (getCurrentClockString (view root))),
         (''state-leave'', JString nm)] @
        (case metadata of Some m \<Rightarrow> [(''metadata'', m)] | None \<Rightarrow> []) @
        (if abandoned then [(''abandoned'', JTrue)] else []))"

definition leave_state ::
  "watchman_user_client option \<Rightarrow> nat \<Rightarrow> bool \<Rightarrow> json option \<Rightarrow> Root \<Rightarrow>
     watchman_user_client option \<times> Root" where
  "leave_state client assertion abandoned metadata root =
     (case assertion_store root assertion of
        None \<Rightarrow> (client, root)
      | Some obj \<Rightarrow>
          let root1 = enqueue root (state_leave_payload root (a_name obj) metadata abandoned);
              root2 = removeAssertion root1 assertion;
              root3 = root2\<lparr>stateTransCount := stateTransCount root2 + 1\<rparr>
          in (map_option (\<lambda>c. c\<lparr>states := (states c)(a_name obj := None)\<rparr>) client, root3))"

text \<open>
  \<open>cmd_state_leave\<close> up to the call of \<open>sync\<close>, for a root that \<open>resolveRoot\<close> has found.
  It returns the client, the root and, where it goes on to the cookie sync, the
  captures of the continuation.
\<close>

definition cmd_state_leave ::
  "int \<Rightarrow> Root \<Rightarrow> watchman_user_client \<Rightarrow> json \<Rightarrow>
     error + (watchman_user_client \<times> Root \<times> (nat \<times> state_arg) option)" where
  "cmd_state_leave default_sync root client0 args =
     bind (parse_state_arg default_sync client0 args) (\<lambda>(client, p).
       case p of
         None \<Rightarrow> Inr (client, root, None)
       | Some parsed \<Rightarrow>
           (case states client (sa_name parsed) of
              None \<Rightarrow>
                Inr (send_error_response client
                       (''state '' @ c_str (sa_name parsed) @ '' is not asserted''),
                     root, None)
            | Some weak \<Rightarrow>
                (case assertion_store root weak of
                   None \<Rightarrow>
                     Inr (send_error_response client
                            (''state '' @ c_str (sa_name parsed) @ '' was implicitly vacated''),
                          root, None)
                 | Some obj \<Rightarrow>
                     if (case states client (sa_name parsed) of
                           Some w \<Rightarrow> (if assertion_store root w = None then None else Some w)
                         | None \<Rightarrow> None) \<noteq> Some weak
                     then
                       Inr (send_error_response client
                              (''state '' @ c_str (sa_name parsed) @
                               '' was not asserted by this session''),
                            root, None)
                     else if disposition obj = Done then
                       Inr (send_error_response client
                              (''state '' @ c_str (sa_name parsed) @ '' was implicitly vacated''),
                            root, None)
                     else
                       let root1 = set_disposition root weak PendingLeave;
                           client1 = client\<lparr>states := (states client)(sa_name parsed := None)\<rparr>;
                           client2 = send_and_dispose_response client1
                                       (JObject [(''root'', JString (root_path root)),
                                                 (''state-leave'', JString (sa_name parsed))])
                       in Inr (client2, root1, Some (weak, parsed)))))"

definition state_leave_sync_done :: "bool \<Rightarrow> nat \<Rightarrow> state_arg \<Rightarrow> Root \<Rightarrow> Root" where
  "state_leave_sync_done ok assertion parsed root =
     (if \<not> ok then root
      else snd (leave_state None assertion False (sa_metadata parsed) root))"

section \<open>The vocabulary of the spec and example inputs\<close>

subsection \<open>The words of the spec about the trigger's input\<close>

text \<open>\<open>join(sep, names)\<close>: the names with \<open>sep\<close> between each two.\<close>

fun join :: "string \<Rightarrow> string list \<Rightarrow> string" where
  "join sep [] = []"
| "join sep [x] = x"
| "join sep (x # y # ys) = x @ sep @ join sep (y # ys)"

text \<open>
  The argument space in the words of the spec: an argument takes its bytes, one more
  byte and a pointer slot; the budget for the appended names is \<open>argMax - 32\<close> less
  the base arguments and the environment.
\<close>

definition base_args_size :: "json list \<Rightarrow> nat" where
  "base_args_size elems =
     sum_list (map (\<lambda>ele. case ele of JString s \<Rightarrow> strlen s + 1 + 8 | _ \<Rightarrow> 0) elems)"

definition names_size :: "string list \<Rightarrow> nat" where
  "names_size names = sum_list (map (\<lambda>name. length name + 1 + 8) names)"

subsection \<open>The trigger of the spec's spawn scenario\<close>

text \<open>
  Scenario 5 of the spec: the query returns the three files \<open>a\<close>, \<open>b\<close>, \<open>c\<close>, the
  trigger has \<open>stdin = NAME_PER_LINE\<close> and \<open>max_files_stdin = 2\<close> and does not append
  files.  Every system call succeeds, the argument space is 4096 bytes, and the
  collaborators answer with fixed values.
\<close>

definition scenario_query :: Query where
  "scenario_query =
     \<lparr>case_sensitive = CaseSensitive, relative_root = None, since_spec = None,
        sync_timeout = 60000, dedup_results = False, fieldList = []\<rparr>"

definition scenario_result :: QueryResult where
  "scenario_result =
     \<lparr>resultsArray = [JString ''a'', JString ''b'', JString ''c''],
        clockAtStartOfQuery = \<lparr>ticks = 7, wallTime = 0\<rparr>,
        dedupedFileNames = [''a'', ''b'', ''c'']\<rparr>"

definition scenario_collaborators :: collaborators where
  "scenario_collaborators =
     \<lparr>win32 = False,
        w_query_parse = (\<lambda>queryDef. Inr (Some scenario_query)),
        parse_field_list = (\<lambda>fields. Inr (map (\<lambda>f. case f of JString s \<Rightarrow> s | _ \<Rightarrow> []) (json_array_elems fields))),
        w_query_execute = (\<lambda>q root. Inr scenario_result),
        get_sock_name_legacy = ''/tmp/sock'',
        getArgMax = 4096,
        asEnviron_size = (\<lambda>e. 512),
        toClockString = (\<lambda>position. ''c:1:7''),
        jsonEncodeToStream = (\<lambda>j. Some ''[]''),
        open_dev_null_ok = True,
        w_mkstemp_ok = True,
        write_ok = (\<lambda>n. True),
        w_is_path_absolute = (\<lambda>p. prefix ''/'' p),
        pathCat = (\<lambda>a b. a @ ''/'' @ b),
        child_starts = (\<lambda>request. True)\<rparr>"

definition scenario_root :: Root where
  "scenario_root =
     \<lparr>root_path = ''/repo'',
        view = \<lparr>view_isVCSOperationInProgress = False, getCurrentClockString = ''c:1:7''\<rparr>,
        assertion_store = Map.empty, assertedStates = Map.empty, unilateralResponses = [],
        stateTransCount = 0\<rparr>"

definition scenario_definition :: json where
  "scenario_definition =
     JObject [(''name'', JString ''t''), (''command'', JArray [JString ''echo'']),
              (''stdin'', JString ''NAME_PER_LINE''), (''max_files_stdin'', JInteger 2)]"

definition scenario_trigger :: TriggerCommand where
  "scenario_trigger =
     \<lparr>definition_json = scenario_definition, triggername = ''t'',
        command = JArray [JString ''echo''],
        query = Some (scenario_query\<lparr>fieldList := [''name'']\<rparr>),
        append_files = False, stdin_style = input_name_list, max_files_stdin = 2,
        stdout_flags = {}, stderr_flags = {}, stdout_name = [], stderr_name = [],
        env = [''WATCHMAN_ROOT'' \<mapsto> ''/repo'', ''WATCHMAN_SOCK'' \<mapsto> ''/tmp/sock'',
               ''WATCHMAN_TRIGGER'' \<mapsto> ''t''],
        current_proc = None\<rparr>"

subsection \<open>Two clients and one state name\<close>

text \<open>
  A root on which the state \<open>A\<close> is queued twice: the assertion at address 1 is at the
  head and its client has asked to leave; the assertion at address 2 waits behind it
  for its cookie sync.  A client that holds the state \<open>A\<close> through address 1, and the
  parsed and unparsed arguments of a command on \<open>A\<close>.
\<close>

definition waiting_root :: Root where
  "waiting_root =
     \<lparr>root_path = ''/repo'',
        view = \<lparr>view_isVCSOperationInProgress = False, getCurrentClockString = ''c:1:7''\<rparr>,
        assertion_store =
          [1 \<mapsto> \<lparr>a_name = ''A'', disposition = PendingLeave, enterPayload = None\<rparr>,
           2 \<mapsto> \<lparr>a_name = ''A'', disposition = PendingEnter, enterPayload = None\<rparr>],
        assertedStates = [''A'' \<mapsto> [1, 2]],
        unilateralResponses = [],
        stateTransCount = 2\<rparr>"

definition state_A_arg :: state_arg where
  "state_A_arg = \<lparr>sa_name = ''A'', sa_sync_timeout = 60000, sa_metadata = None\<rparr>"

definition state_A_args :: json where
  "state_A_args = JArray [JString ''state-leave'', JString ''/repo'', JString ''A'']"

definition client_of_A :: watchman_user_client where
  "client_of_A = \<lparr>states = [''A'' \<mapsto> 1], sent = []\<rparr>"

section \<open>Verified properties\<close>

subsection \<open>The \<open>dirname\<close> and \<open>idirname\<close> terms\<close>

lemma depth_loop_eq: "depth_loop str i acc = acc + countSeps (drop i str)"
proof (induction str i acc rule: depth_loop.induct)
  case (1 str i acc)
  show ?case
  proof (cases "i < length str")
    case True
    then have d: "drop i str = str ! i # drop (i + 1) str"
      by (simp add: Cons_nth_drop_Suc)
    show ?thesis
      using True 1 by (subst depth_loop.simps) (simp add: d countSeps_def)
  next
    case False
    then show ?thesis by (subst depth_loop.simps) (simp add: countSeps_def)
  qed
qed

lemma startswith_prefix: "w_string_startswith str p = prefix p str"
  by (induction str p rule: w_string_startswith.induct) auto

lemma startswith_caseless_prefix:
  "w_string_startswith_caseless str p = prefix (lowercased p) (lowercased str)"
  by (induction str p rule: w_string_startswith_caseless.induct) (auto simp: lowercased_def)

lemma tolower_idem: "tolower (tolower c) = tolower c"
  by (simp add: tolower_def)

lemma is_dir_sep_tolower: "is_dir_sep (tolower c) = is_dir_sep c"
  by (simp add: is_dir_sep_def tolower_def)

lemma lowercased_idem: "lowercased (lowercased s) = lowercased s"
  by (simp add: lowercased_def tolower_idem)

lemma length_lowercased: "length (lowercased s) = length s"
  by (simp add: lowercased_def)

lemma countSeps_lowercased: "countSeps (drop n (lowercased s)) = countSeps (drop n s)"
  by (simp add: countSeps_def lowercased_def drop_map filter_map o_def is_dir_sep_tolower)

lemma map_of_opname: "map_of opname_to_op (opname c) = Some c"
  by (cases c) (simp_all add: opname_to_op_def)

lemma parse_dir_term:
  "parse (dir_term name d) cs =
     Inr \<lparr>dirname = d, depth = \<lparr>op = W_QUERY_ICMP_GE, operand = 0\<rparr>,
          startswith = (if cs = CaseInSensitive then w_string_startswith_caseless
                        else w_string_startswith)\<rparr>"
  by (simp add: parse_def dir_term_def)

lemma parse_dir_depth_term:
  "parse (dir_depth_term name d c k) cs =
     Inr \<lparr>dirname = d, depth = \<lparr>op = c, operand = k\<rparr>,
          startswith = (if cs = CaseInSensitive then w_string_startswith_caseless
                        else w_string_startswith)\<rparr>"
  by (simp add: parse_def dir_depth_term_def parse_int_compare_def map_of_opname c_str_def)


lemma evaluate_sensitive:
  "evaluate \<lparr>dirname = d, depth = dc, startswith = w_string_startswith\<rparr> W =
     (starts_with CaseSensitive W d \<and> length d < length W \<and>
      (d = [] \<or> is_dir_sep (W ! length d)) \<and>
      eval_int_compare (countSeps (drop (length d + 1) W)) dc)"
  by (auto simp: evaluate_def starts_with_def startswith_prefix depth_loop_eq
        simp del: eval_int_compare.simps)

lemma evaluate_caseless:
  "evaluate \<lparr>dirname = d, depth = dc, startswith = w_string_startswith_caseless\<rparr> W =
     (starts_with CaseInSensitive W d \<and> length d < length W \<and>
      (d = [] \<or> is_dir_sep (W ! length d)) \<and>
      eval_int_compare (countSeps (drop (length d + 1) W)) dc)"
  by (auto simp: evaluate_def starts_with_def startswith_caseless_prefix depth_loop_eq
        simp del: eval_int_compare.simps)

lemma evaluate_parsed_expr:
  "evaluate \<lparr>dirname = d, depth = dc,
       startswith = (if cs = CaseInSensitive then w_string_startswith_caseless
                     else w_string_startswith)\<rparr> W =
     (starts_with cs W d \<and> length d < length W \<and> (d = [] \<or> is_dir_sep (W ! length d)) \<and>
      eval_int_compare (countSeps (drop (length d + 1) W)) dc)"
  by (cases cs) (simp_all only: evaluate_sensitive evaluate_caseless if_True if_False
        CaseSensitivity.distinct refl)

text \<open>
  Claim C1, as amended.  The \<open>dirname\<close> term \<open>[dirname, d, [depth, cmp, k]]\<close> is true
  of a whole-name \<open>W\<close> exactly when \<open>W\<close> starts with \<open>d\<close> under the case sensitivity of
  the query that holds the term (bytewise in a case-sensitive query, after lowercasing
  both in a case-insensitive one), \<open>|W| > |d|\<close>, \<open>d\<close> is empty or \<open>W[|d|]\<close> is one of the
  separators (slash, backslash), and \<open>cmp(actualDepth, k)\<close> holds for the number
  \<open>actualDepth\<close> of separators in \<open>W[|d|+1 .. end]\<close>.  The term \<open>[dirname, d]\<close> without
  a depth triple evaluates as \<open>[dirname, d, [depth, ge, 0]]\<close> does.
\<close>

theorem dirname_evaluation_by_query_case:
  "eval_parsed (parseDirName q (dir_depth_term ''dirname'' d c k)) W =
     Inr (starts_with (case_sensitive q) W d \<and> length d < length W \<and>
          (d = [] \<or> is_dir_sep (W ! length d)) \<and>
          eval_int_compare (countSeps (drop (length d + 1) W)) \<lparr>op = c, operand = k\<rparr>)
   \<and> eval_parsed (parseDirName q (dir_term ''dirname'' d)) W =
       eval_parsed (parseDirName q (dir_depth_term ''dirname'' d W_QUERY_ICMP_GE 0)) W"
  by (simp add: eval_parsed_def parseDirName_def parse_dir_term parse_dir_depth_term
        evaluate_parsed_expr del: eval_int_compare.simps)

text \<open>
  C1 in the spec's first scenario, in a case-sensitive query: \<open>[dirname, src]\<close> is true
  of \<open>src/a/b.c\<close>, at depth 1, and false of \<open>src\<close> and of \<open>srcx/a\<close>.
\<close>

theorem dirname_evaluation_by_query_case_witness:
  "eval_parsed (parseDirName scenario_query (dir_term ''dirname'' ''src'')) ''src/a/b.c'' = Inr True
   \<and> countSeps (drop (length ''src'' + 1) ''src/a/b.c'') = 1
   \<and> eval_parsed (parseDirName scenario_query (dir_term ''dirname'' ''src'')) ''src'' = Inr False
   \<and> eval_parsed (parseDirName scenario_query (dir_term ''dirname'' ''src'')) ''srcx/a'' = Inr False"
  using dirname_evaluation_by_query_case
      [of scenario_query "''src''" W_QUERY_ICMP_GE 0 "''src/a/b.c''"]
    dirname_evaluation_by_query_case [of scenario_query "''src''" W_QUERY_ICMP_GE 0 "''src''"]
    dirname_evaluation_by_query_case [of scenario_query "''src''" W_QUERY_ICMP_GE 0 "''srcx/a''"]
  by (simp add: scenario_query_def starts_with_def countSeps_def is_dir_sep_def)

text \<open>
  Claim C1, as stated, fails in a case-insensitive query: \<open>parseDirName\<close> hands the
  query's own case sensitivity to \<open>parse\<close>, so \<open>[dirname, src]\<close> is true of \<open>SRC/a\<close>,
  which does not start with \<open>src\<close>.
\<close>

theorem dirname_case_insensitive_query_counterexample:
  "eval_parsed
     (parseDirName
        \<lparr>case_sensitive = CaseInSensitive, relative_root = None, since_spec = None,
           sync_timeout = 0, dedup_results = False, fieldList = []\<rparr>
        (dir_term ''dirname'' ''src''))
     ''SRC/a'' = Inr True
   \<and> \<not> prefix ''src'' ''SRC/a''"
  by (simp add: eval_parsed_def parseDirName_def parse_dir_term evaluate_caseless starts_with_def
        lowercased_def tolower_def is_dir_sep_def countSeps_def)

lemma starts_with_lowercased:
  "starts_with cs (lowercased W) (lowercased d) = starts_with CaseInSensitive W d"
  by (cases cs) (simp_all add: starts_with_def lowercased_idem)

lemma is_dir_sep_lowercased_nth:
  "n < length W \<Longrightarrow> is_dir_sep (lowercased W ! n) = is_dir_sep (W ! n)"
  by (simp add: lowercased_def is_dir_sep_tolower)

lemma lowercased_Nil_iff: "(lowercased d = []) = (d = [])"
  by (simp add: lowercased_def)

lemma evaluate_lowercased:
  "evaluate \<lparr>dirname = d, depth = dc, startswith = w_string_startswith_caseless\<rparr> W =
   evaluate \<lparr>dirname = lowercased d, depth = dc,
       startswith = (if cs = CaseInSensitive then w_string_startswith_caseless
                     else w_string_startswith)\<rparr> (lowercased W)"
proof (cases "length d < length W")
  case True
  then show ?thesis
    by (simp only: evaluate_caseless evaluate_parsed_expr starts_with_lowercased
          length_lowercased countSeps_lowercased lowercased_Nil_iff is_dir_sep_lowercased_nth)
next
  case False
  then show ?thesis
    by (simp only: evaluate_caseless evaluate_parsed_expr length_lowercased simp_thms)
qed

text \<open>
  Claim C7.  Evaluating the \<open>idirname\<close> term on \<open>(W, d)\<close> gives the result of evaluating
  the \<open>dirname\<close> term on the lowercased \<open>W\<close> and the lowercased \<open>d\<close>, with or without
  a depth triple, whatever the case sensitivity of the two queries: the length check,
  the separator check and the depth count do not change under lowercasing.
\<close>

theorem idirname_is_dirname_on_lowercased:
  "eval_parsed (parseIDirName q (dir_term ''idirname'' d)) W =
     eval_parsed (parseDirName q' (dir_term ''dirname'' (lowercased d))) (lowercased W)
   \<and> eval_parsed (parseIDirName q (dir_depth_term ''idirname'' d c k)) W =
     eval_parsed (parseDirName q' (dir_depth_term ''dirname'' (lowercased d) c k)) (lowercased W)"
  by (simp add: eval_parsed_def parseDirName_def parseIDirName_def parse_dir_term
        parse_dir_depth_term evaluate_lowercased[symmetric] del: eval_int_compare.simps)


text \<open>
  C7 in the spec's second scenario: \<open>[idirname, Src]\<close> is true of \<open>src/a.c\<close>, as
  \<open>[dirname, src]\<close> is in a case-sensitive query.
\<close>

theorem idirname_is_dirname_on_lowercased_witness:
  "eval_parsed (parseIDirName scenario_query (dir_term ''idirname'' ''Src'')) ''src/a.c'' = Inr True
   \<and> eval_parsed (parseDirName scenario_query (dir_term ''dirname'' ''src'')) ''src/a.c'' = Inr True"
  using idirname_is_dirname_on_lowercased
      [of scenario_query "''Src''" "''src/a.c''" scenario_query W_QUERY_ICMP_GE 0]
  by (simp add: eval_parsed_def parseDirName_def parse_dir_term evaluate_sensitive
        scenario_query_def starts_with_def lowercased_def tolower_def is_dir_sep_def
        countSeps_def)

subsection \<open>Redirections\<close>

lemma c_str_Cons: "c_str (c # s) = (if c = CHR 0x00 then [] else c # c_str s)"
  by (simp add: c_str_def)

lemma c_str_Nil: "c_str [] = []"
  by (simp add: c_str_def)

lemma c_str_no_gt: "\<not> prefix ''>'' v \<Longrightarrow> c_str v = [] \<or> c_str v ! 0 \<noteq> CHR ''>''"
  by (cases v) (simp_all add: c_str_Cons c_str_Nil)

text \<open>
  Claim C6, as amended.  In a trigger definition the \<open>stdout\<close> or \<open>stderr\<close> value is
  read as a C string, up to its first NUL.  A value \<open>>path\<close> parses to the flags
  create, write, truncate and the name \<open>path\<close>; a value \<open>>>path\<close> parses to create,
  write, append, and is rejected with a validation error where the platform has no
  append mode; an absent value leaves the name empty and the flags clear, so the child
  inherits the daemon's descriptor.  Every string value that does not start with \<open>>\<close>,
  the empty string among them, is rejected with the validation error \<open>must be prefixed
  with either > or >>\<close>, and every value that is not a string with \<open>must be a string\<close>.
\<close>

theorem parse_redirection_syntax:
  "(get_default trig label = None \<longrightarrow>
      parse_redirection w trig [] label = Inr ([], {}) \<and> redirect [] {} = Dup2_daemon_fd)
   \<and> (get_default trig label = Some (JString (CHR ''>'' # path)) \<and> \<not> prefix ''>'' path \<longrightarrow>
      parse_redirection w trig name label = Inr (c_str path, {O_CREAT, O_WRONLY, O_TRUNC}))
   \<and> (get_default trig label = Some (JString (CHR ''>'' # CHR ''>'' # path)) \<longrightarrow>
      parse_redirection w trig name label =
        (if w then Inl (CommandValidationError (label @ '': Windows does not support O_APPEND''))
         else Inr (c_str path, {O_CREAT, O_WRONLY, O_APPEND})))
   \<and> (get_default trig label = Some (JString v) \<and> \<not> prefix ''>'' v \<longrightarrow>
      parse_redirection w trig name label =
        Inl (CommandValidationError
          (label @ '': must be prefixed with either > or >>, got '' @ c_str v)))
   \<and> (get_default trig label = Some ele \<and> (\<forall>s. ele \<noteq> JString s) \<longrightarrow>
      parse_redirection w trig name label =
        Inl (CommandValidationError (label @ '' must be a string'')))"
proof (intro conjI impI)
  assume "get_default trig label = None"
  then show "parse_redirection w trig [] label = Inr ([], {})"
    by (simp add: parse_redirection_def)
next
  show "redirect [] {} = Dup2_daemon_fd"
    by (simp add: redirect_def)
next
  assume "get_default trig label = Some (JString (CHR ''>'' # path)) \<and> \<not> prefix ''>'' path"
  then show "parse_redirection w trig name label = Inr (c_str path, {O_CREAT, O_WRONLY, O_TRUNC})"
    by (cases path)
       (auto simp: parse_redirection_def string_at_def c_str_Cons c_str_Nil Let_def)
next
  assume "get_default trig label = Some (JString (CHR ''>'' # CHR ''>'' # path))"
  then show "parse_redirection w trig name label =
        (if w then Inl (CommandValidationError (label @ '': Windows does not support O_APPEND''))
         else Inr (c_str path, {O_CREAT, O_WRONLY, O_APPEND}))"
    by (auto simp: parse_redirection_def string_at_def c_str_Cons Let_def)
next
  assume a: "get_default trig label = Some (JString v) \<and> \<not> prefix ''>'' v"
  then have "c_str v = [] \<or> c_str v ! 0 \<noteq> CHR ''>''"
    using c_str_no_gt by blast
  with a show "parse_redirection w trig name label =
        Inl (CommandValidationError
          (label @ '': must be prefixed with either > or >>, got '' @ c_str v))"
    by (auto simp: parse_redirection_def string_at_def Let_def)
next
  assume "get_default trig label = Some ele \<and> (\<forall>s. ele \<noteq> JString s)"
  then show "parse_redirection w trig name label =
        Inl (CommandValidationError (label @ '' must be a string''))"
    by (cases ele) (simp_all add: parse_redirection_def)
qed

text \<open>
  The cases of C6 at the \<open>stdout\<close> values absent, \<open>>out.log\<close>, \<open>>>out.log\<close> (with and
  without append support), the empty string, \<open>out.log\<close> and the number 1.
\<close>

theorem parse_redirection_syntax_witness:
  "parse_redirection False (JObject []) [] ''stdout'' = Inr ([], {})
   \<and> redirect [] {} = Dup2_daemon_fd
   \<and> parse_redirection False (JObject [(''stdout'', JString ''>out.log'')]) [] ''stdout'' =
       Inr (''out.log'', {O_CREAT, O_WRONLY, O_TRUNC})
   \<and> parse_redirection False (JObject [(''stdout'', JString ''>>out.log'')]) [] ''stdout'' =
       Inr (''out.log'', {O_CREAT, O_WRONLY, O_APPEND})
   \<and> parse_redirection True (JObject [(''stdout'', JString ''>>out.log'')]) [] ''stdout'' =
       Inl (CommandValidationError ''stdout: Windows does not support O_APPEND'')
   \<and> parse_redirection False (JObject [(''stdout'', JString [])]) [] ''stdout'' =
       Inl (CommandValidationError ''stdout: must be prefixed with either > or >>, got '')
   \<and> parse_redirection False (JObject [(''stdout'', JString ''out.log'')]) [] ''stdout'' =
       Inl (CommandValidationError
         ''stdout: must be prefixed with either > or >>, got out.log'')
   \<and> parse_redirection False (JObject [(''stdout'', JInteger 1)]) [] ''stdout'' =
       Inl (CommandValidationError ''stdout must be a string'')"
  using parse_redirection_syntax
      [of "JObject []" "''stdout''" False "''out.log''" "[]" "[]" JNull]
    parse_redirection_syntax
      [of "JObject [(''stdout'', JString ''>out.log'')]" "''stdout''" False "''out.log''" "[]"
          "[]" JNull]
    parse_redirection_syntax
      [of "JObject [(''stdout'', JString ''>>out.log'')]" "''stdout''" False "''out.log''" "[]"
          "[]" JNull]
    parse_redirection_syntax
      [of "JObject [(''stdout'', JString ''>>out.log'')]" "''stdout''" True "''out.log''" "[]"
          "[]" JNull]
    parse_redirection_syntax
      [of "JObject [(''stdout'', JString [])]" "''stdout''" False "''out.log''" "[]" "[]" JNull]
    parse_redirection_syntax
      [of "JObject [(''stdout'', JString ''out.log'')]" "''stdout''" False "''out.log''" "[]"
          "''out.log''" JNull]
    parse_redirection_syntax
      [of "JObject [(''stdout'', JInteger 1)]" "''stdout''" False "''out.log''" "[]" "[]"
          "JInteger 1"]
  by (simp add: get_default_def c_str_def)

text \<open>
  Claim C6, as stated, fails for the empty string: \<open>parse_redirection\<close> tests
  \<open>name.empty()\<close> and raises, it does not inherit.
\<close>

theorem parse_redirection_empty_string_counterexample:
  "parse_redirection False (JObject [(''stdout'', JString '''')]) '''' ''stdout'' =
     Inl (CommandValidationError ''stdout: must be prefixed with either > or >>, got '')"
  by (simp add: parse_redirection_def get_default_def c_str_def)

subsection \<open>The defaults of \<open>QueryableView\<close>\<close>

text \<open>
  Claim C8.  In a view that overrides none of them, each of the four generators raises
  \<open>QueryExecError\<close> with the message made of its own name and "not implemented";
  \<open>getLastAgeOutTickValue\<close> is 0; \<open>getLastAgeOutTimeStamp\<close> is the epoch; \<open>ageOut\<close>
  changes nothing; and \<open>isVCSOperationInProgress\<close> is true exactly when \<open>.hg/wlock\<close> or
  \<open>.git/index.lock\<close> exists under the root.
\<close>

theorem QueryableView_defaults:
  "timeGenerator = Inl (QueryExecError (''timeGenerator'' @ '' not implemented''))
   \<and> pathGenerator = Inl (QueryExecError (''pathGenerator'' @ '' not implemented''))
   \<and> globGenerator = Inl (QueryExecError (''globGenerator'' @ '' not implemented''))
   \<and> allFilesGenerator = Inl (QueryExecError (''allFilesGenerator'' @ '' not implemented''))
   \<and> getLastAgeOutTickValue = 0
   \<and> getLastAgeOutTimeStamp = 0
   \<and> ageOut v sample min_age = v
   \<and> isVCSOperationInProgress exists_under_root =
       (exists_under_root ''.hg/wlock'' \<or> exists_under_root ''.git/index.lock'')"
  by (simp add: timeGenerator_def pathGenerator_def globGenerator_def allFilesGenerator_def
        getLastAgeOutTickValue_def getLastAgeOutTimeStamp_def ageOut_def
        isVCSOperationInProgress_def doAnyOfTheseFilesExist_def lockFiles_def)


subsection \<open>The trigger's standard input\<close>

lemma write_names_all_ok:
  "\<forall>n. write_ok K n \<Longrightarrow>
   write_names K (map JString names) n buf =
     Inr (Some (buf @ concat (map (\<lambda>x. x @ [CHR 0x0A]) names)))"
  by (induction names arbitrary: n buf) (simp_all add: bind_def json_to_w_string_def)

lemma join_then_sep:
  "names \<noteq> [] \<Longrightarrow> join sep names @ sep = concat (map (\<lambda>x. x @ sep) names)"
  by (induction sep names rule: join.induct) simp_all

text \<open>The constructor builds the trigger of the scenario from its definition.\<close>

lemma scenario_ctor:
  "TriggerCommand_ctor scenario_collaborators Map.empty scenario_root scenario_definition =
     Inr scenario_trigger"
  by (simp add: TriggerCommand_ctor_def scenario_collaborators_def scenario_root_def
        scenario_definition_def scenario_trigger_def initial_command_def queryDef_of_def
        get_default_def bind_def asBool_def asInt_def parse_stdin_property_def
        parse_redirection_def json_array_elems_def c_str_def)

text \<open>
  Claim C5.  For a trigger whose input style is not \<open>/dev/null\<close> and whose
  \<open>max_files_stdin\<close> is positive, \<open>prepare_stdin\<close> first cuts the results down to
  \<open>min(|results|, max_files_stdin)\<close> entries.  With \<open>NAME_PER_LINE\<close> and a result that
  is not empty (a trigger is spawned for no other), the file then holds each remaining
  name followed by a newline, which is \<open>join\<close> of the names on the newline with one
  more newline after it; with a field list it holds the JSON encoding of the array of
  the remaining results.  The temporary file is created and written without a failure.
\<close>

theorem prepare_stdin_contents:
  assumes "stdin_style cmd \<noteq> input_dev_null" and "0 < max_files_stdin cmd"
    and "w_mkstemp_ok K"
  shows "(stdin_style cmd = input_name_list \<and> resultsArray res = map JString names \<and>
          names \<noteq> [] \<and> (\<forall>n. write_ok K n) \<longrightarrow>
            prepare_stdin K cmd res =
              Inr (Some (TempFile
                     (join [CHR 0x0A] (take (min (length names) (max_files_stdin cmd)) names)
                      @ [CHR 0x0A]),
                   res\<lparr>resultsArray :=
                     map JString (take (min (length names) (max_files_stdin cmd)) names)\<rparr>))
            \<and> join [CHR 0x0A] (take (min (length names) (max_files_stdin cmd)) names)
                @ [CHR 0x0A] =
              concat (map (\<lambda>x. x @ [CHR 0x0A])
                (take (min (length names) (max_files_stdin cmd)) names)))
       \<and> (stdin_style cmd = input_json \<and>
          jsonEncodeToStream K
            (JArray (take (min (length (resultsArray res)) (max_files_stdin cmd))
               (resultsArray res))) = Some bytes \<longrightarrow>
            prepare_stdin K cmd res =
              Inr (Some (TempFile bytes,
                   res\<lparr>resultsArray :=
                     take (min (length (resultsArray res)) (max_files_stdin cmd))
                       (resultsArray res)\<rparr>)))"
proof (intro conjI impI)
  assume h: "stdin_style cmd = input_name_list \<and> resultsArray res = map JString names \<and>
          names \<noteq> [] \<and> (\<forall>n. write_ok K n)"
  let ?kept = "take (min (length names) (max_files_stdin cmd)) names"
  have ne: "?kept \<noteq> []" using h assms(2) by (cases names) auto
  show j: "join [CHR 0x0A] ?kept @ [CHR 0x0A] = concat (map (\<lambda>x. x @ [CHR 0x0A]) ?kept)"
    using ne by (rule join_then_sep)
  have m: "min (max_files_stdin cmd) (length names) =
           min (length names) (max_files_stdin cmd)" by simp
  have w: "write_names K (map JString ?kept) 0 [] =
             Inr (Some ([] @ concat (map (\<lambda>x. x @ [CHR 0x0A]) ?kept)))"
    using h by (intro write_names_all_ok) simp
  show "prepare_stdin K cmd res =
      Inr (Some (TempFile (join [CHR 0x0A] ?kept @ [CHR 0x0A]),
                 res\<lparr>resultsArray := map JString ?kept\<rparr>))"
    using h assms w by (simp add: prepare_stdin_def Let_def m take_map j bind_def)
next
  assume h: "stdin_style cmd = input_json \<and>
          jsonEncodeToStream K
            (JArray (take (min (length (resultsArray res)) (max_files_stdin cmd))
               (resultsArray res))) = Some bytes"
  have m: "min (max_files_stdin cmd) (length (resultsArray res)) =
           min (length (resultsArray res)) (max_files_stdin cmd)" by simp
  show "prepare_stdin K cmd res =
      Inr (Some (TempFile bytes,
           res\<lparr>resultsArray :=
             take (min (length (resultsArray res)) (max_files_stdin cmd)) (resultsArray res)\<rparr>))"
    using h assms by (simp add: prepare_stdin_def Let_def m)
qed

text \<open>
  C5 in the spec's scenario: the results \<open>a\<close>, \<open>b\<close>, \<open>c\<close> with \<open>max_files_stdin = 2\<close>
  give the input \<open>a\<close>, newline, \<open>b\<close>, newline; with the JSON style the file holds what
  the encoder writes for the array of \<open>a\<close> and \<open>b\<close>.
\<close>

theorem prepare_stdin_contents_witness:
  "prepare_stdin scenario_collaborators scenario_trigger scenario_result =
     Inr (Some (TempFile [CHR ''a'', CHR 0x0A, CHR ''b'', CHR 0x0A],
                scenario_result\<lparr>resultsArray := [JString ''a'', JString ''b'']\<rparr>))
   \<and> prepare_stdin scenario_collaborators (scenario_trigger\<lparr>stdin_style := input_json\<rparr>)
       scenario_result =
     Inr (Some (TempFile ''[]'',
                scenario_result\<lparr>resultsArray := [JString ''a'', JString ''b'']\<rparr>))"
  using prepare_stdin_contents
      [of scenario_trigger scenario_collaborators scenario_result "[''a'', ''b'', ''c'']" "''[]''"]
    prepare_stdin_contents
      [of "scenario_trigger\<lparr>stdin_style := input_json\<rparr>" scenario_collaborators
          scenario_result "[''a'', ''b'', ''c'']" "''[]''"]
  by (simp add: scenario_trigger_def scenario_collaborators_def scenario_result_def)


subsection \<open>The overflow flag of \<open>spawn_command\<close>\<close>

lemma prepare_stdin_keeps:
  "prepare_stdin K cmd res = Inr (Some (s, res1)) \<Longrightarrow>
   dedupedFileNames res1 = dedupedFileNames res \<and>
   clockAtStartOfQuery res1 = clockAtStartOfQuery res"
  by (auto simp: prepare_stdin_def Let_def bind_def
        split: if_splits trigger_input_style.splits option.splits sum.splits)

lemma append_loop_prefix:
  "append_loop items rem (JArray xs) ovf = (rem', args', ovf') \<Longrightarrow>
   \<exists>n \<le> length items. args' = JArray (xs @ map JString (take n items)) \<and>
     ovf' = (ovf \<or> n < length items)"
proof (induction items arbitrary: rem xs)
  case Nil
  then show ?case by simp
next
  case (Cons item items)
  show ?case
  proof (cases "rem < ucast (of_nat (length item + 1 + 8) :: 32 word)")
    case True
    with Cons.prems have "args' = JArray xs" "ovf'" by (simp_all add: Let_def)
    then show ?thesis by (intro exI[of _ 0]) simp
  next
    case False
    with Cons.prems have
      "append_loop items (rem - ucast (of_nat (length item + 1 + 8) :: 32 word))
         (JArray (xs @ [JString item])) ovf = (rem', args', ovf')"
      by (simp add: Let_def json_array_append_new_def)
    from Cons.IH[OF this] obtain n where n: "n \<le> length items"
      "args' = JArray ((xs @ [JString item]) @ map JString (take n items))"
      "ovf' = (ovf \<or> n < length items)" by blast
    then show ?thesis by (intro exI[of _ "Suc n"]) simp
  qed
qed

lemma compute_args_shape:
  assumes "compute_args K cmd res e rem ovf = Inr (args, ovf')" and "command cmd = JArray base"
  shows "\<exists>n \<le> length (dedupedFileNames res).
           args = JArray (base @ map JString (take n (if append_files cmd then dedupedFileNames res else []))) \<and>
           ovf' = (ovf \<or> (append_files cmd \<and> n < length (dedupedFileNames res)))"
proof (cases "append_files cmd")
  case False
  with assms show ?thesis by (intro exI[of _ 0]) (simp add: compute_args_def)
next
  case True
  with assms obtain a1 a3 where
    "append_loop (dedupedFileNames res) (a1 - asEnviron_size K e) (JArray base) ovf = (a3, args, ovf')"
    by (auto simp: compute_args_def bind_def Let_def split: sum.splits prod.splits)
  from append_loop_prefix[OF this] True show ?thesis by auto
qed

lemma spawn_command_request:
  assumes "spawn_command K root cmd res since = Inr (cmd', effs)"
    and "Child_started request \<in> set effs \<or> Child_failed request \<in> set effs"
  shows "\<exists>stdin_file res1 q args ovf.
           prepare_stdin K cmd res = Inr (Some (stdin_file, res1)) \<and> query cmd = Some q \<and>
           compute_args K cmd res1 (spawn_environment K cmd q res1 since) (getArgMax K - 32)
             (max_files_stdin cmd > 0 \<and> length (resultsArray res) > max_files_stdin cmd) =
               Inr (args, ovf) \<and>
           sr_args request = json_array_elems args \<and>
           sr_environment request =
             setBool (spawn_environment K cmd q res1 since) ''WATCHMAN_FILES_OVERFLOW'' ovf"
  using assms
  by (auto simp: spawn_command_def bind_def Let_def
        split: sum.splits option.splits prod.splits if_splits)


lemma measure_base_args_ok:
  "measure_base_args elems rem = Inr a1 \<Longrightarrow> a1 = rem - of_nat (base_args_size elems)"
proof (induction elems arbitrary: rem)
  case Nil
  then show ?case by (simp add: base_args_size_def)
next
  case (Cons ele elems)
  from Cons.prems obtain s where s: "ele = JString s"
    by (cases ele) simp_all
  with Cons.prems have "measure_base_args elems (rem - of_nat (strlen s + 1 + 8)) = Inr a1"
    by simp
  from Cons.IH[OF this] have "a1 = rem - of_nat (strlen s + 1 + 8) - of_nat (base_args_size elems)" .
  also have "\<dots> = rem - of_nat (base_args_size (ele # elems))"
    by (simp add: s base_args_size_def)
  finally show ?case .
qed

lemma unat_size32:
  assumes "n < 2 ^ 32"
  shows "unat (ucast (of_nat n :: 32 word) :: 64 word) = n"
proof -
  have "unat (of_nat n :: 32 word) = n mod 2 ^ LENGTH(32)"
    by (rule unat_of_nat)
  then have "unat (of_nat n :: 32 word) = n" using assms by simp
  moreover have "unat (ucast (of_nat n :: 32 word) :: 64 word) =
        take_bit 64 (unat (of_nat n :: 32 word))"
    by (simp only: unsigned_ucast_eq) simp
  ultimately have "unat (ucast (of_nat n :: 32 word) :: 64 word) = take_bit 64 n"
    by (simp only:)
  also have "take_bit 64 n = n"
    using assms by (simp add: take_bit_nat_eq_self)
  finally show ?thesis .
qed

lemma append_loop_all_iff:
  "\<forall>name \<in> set items. length name + 9 < 2 ^ 32 \<Longrightarrow>
   append_loop items rem (JArray xs) ovf = (rem', args', ovf') \<Longrightarrow>
   (args' = JArray (xs @ map JString items)) = (names_size items \<le> unat rem)"
proof (induction items arbitrary: rem xs)
  case Nil
  then show ?case by (simp add: names_size_def)
next
  case (Cons item items)
  define sz :: "64 word" where "sz = ucast (of_nat (length item + 1 + 8) :: 32 word)"
  have "length item + 1 + 8 < 2 ^ 32" using Cons.prems(1) by simp
  then have sz: "unat sz = length item + 9"
    unfolding sz_def by (subst unat_size32) simp_all
  have step: "append_loop (item # items) rem (JArray xs) ovf =
      (if rem < sz then (rem, JArray xs, True)
       else append_loop items (rem - sz) (JArray (xs @ [JString item])) ovf)"
    unfolding sz_def by (simp only: append_loop.simps Let_def json_array_append_new_def json.case)
  show ?case
  proof (cases "rem < sz")
    case True
    then have "unat rem < length item + 9" using sz by (simp add: word_less_nat_alt)
    moreover from True Cons.prems(2) have "args' = JArray xs" by (simp only: step if_True prod.inject)
    ultimately show ?thesis by (simp add: names_size_def)
  next
    case False
    then have le: "sz \<le> rem" by simp
    then have u: "unat (rem - sz) = unat rem - (length item + 9)"
      using sz by (simp add: unat_sub)
    have ge: "length item + 9 \<le> unat rem"
      using le sz by (simp add: word_le_nat_alt)
    from False Cons.prems(2) have
      "append_loop items (rem - sz) (JArray (xs @ [JString item])) ovf = (rem', args', ovf')"
      by (simp only: step if_False)
    from Cons.IH[OF _ this] Cons.prems(1)
    have "(args' = JArray ((xs @ [JString item]) @ map JString items)) =
          (names_size items \<le> unat rem - (length item + 9))"
      by (simp add: u)
    then show ?thesis using ge by (simp add: names_size_def) linarith
  qed
qed

lemma unat_budget:
  fixes argmax e :: "64 word"
  assumes "32 + b + unat e \<le> unat argmax"
  shows "unat (argmax - 32 - of_nat b - e) = unat argmax - 32 - b - unat e"
proof -
  define t :: "64 word" where "t = of_nat (32 + b + unat e)"
  have split: "argmax - 32 - of_nat b - e = argmax - t"
    unfolding t_def by simp
  have "unat argmax < 2 ^ 64"
    using unsigned_less[of argmax, where 'a = nat] by simp
  then have lt: "32 + b + unat e < 2 ^ 64" using assms by simp
  have "unat t = (32 + b + unat e) mod 2 ^ LENGTH(64)"
    unfolding t_def by (rule unat_of_nat)
  then have ut: "unat t = 32 + b + unat e" using lt by simp
  then have "t \<le> argmax" using assms by (simp add: word_le_nat_alt)
  then have "unat (argmax - t) = unat argmax - unat t" by (rule unat_sub)
  then show ?thesis by (simp add: split ut)
qed


lemma spawn_environment_truncated:
  "clockAtStartOfQuery res1 = clockAtStartOfQuery res \<Longrightarrow>
   spawn_environment K cmd q res1 since = spawn_environment K cmd q res since"
  by (simp add: spawn_environment_def)

lemma compute_args_append:
  assumes "append_files cmd" and "command cmd = JArray base"
    and "compute_args K cmd res e rem ovf = Inr (args, ovf')"
  shows "\<exists>a3. append_loop (dedupedFileNames res)
           (rem - of_nat (base_args_size base) - asEnviron_size K e) (JArray base) ovf =
             (a3, args, ovf')"
proof -
  from assms obtain a1 a3 where m: "measure_base_args base rem = Inr a1"
    and l: "append_loop (dedupedFileNames res) (a1 - asEnviron_size K e) (JArray base) ovf =
              (a3, args, ovf')"
    by (auto simp: compute_args_def bind_def Let_def json_array_elems_def
          split: sum.splits prod.splits)
  from measure_base_args_ok[OF m] l show ?thesis by auto
qed

text \<open>
  The flag, and the budget where nothing wraps around.  Whenever \<open>spawn_command\<close> gets
  as far as starting the child of a trigger
  whose command is an array (the constructor accepts no other), the child's
  \<open>WATCHMAN_FILES_OVERFLOW\<close> is \<open>true\<close> if \<open>max_files_stdin > 0\<close> and the result, before
  \<open>prepare_stdin\<close> cut it, had more than \<open>max_files_stdin\<close> entries, or if
  \<open>append_files\<close> is set and not every deduplicated name was appended to the argument
  vector; otherwise it is \<open>false\<close>.  The appended names are an initial part of the
  deduplicated names.  Where the base arguments and the environment fit into
  \<open>argMax - 32\<close> and every name is shorter than \<open>2^32 - 9\<close> bytes, so that neither
  \<open>size_t\<close> nor \<open>uint32_t\<close> wraps around, a name is left out exactly when the names
  need more than the budget \<open>argMax - 32\<close> less the base arguments and the environment.
\<close>

lemma files_overflow_flag:
  assumes run: "spawn_command K root cmd res since = Inr (cmd', effs)"
    and req: "Child_started request \<in> set effs \<or> Child_failed request \<in> set effs"
    and arr: "command cmd = JArray base"
  shows "sr_environment request ''WATCHMAN_FILES_OVERFLOW'' =
           Some (if (0 < max_files_stdin cmd \<and> max_files_stdin cmd < length (resultsArray res)) \<or>
                    (append_files cmd \<and>
                     sr_args request \<noteq> base @ map JString (dedupedFileNames res))
                 then ''true'' else ''false'')
     \<and> (\<exists>n. sr_args request =
            base @ map JString (take n (if append_files cmd then dedupedFileNames res else [])))
     \<and> (append_files cmd \<and> query cmd = Some q \<and>
        32 + base_args_size base +
          unat (asEnviron_size K (spawn_environment K cmd q res since)) \<le> unat (getArgMax K) \<and>
        (\<forall>name \<in> set (dedupedFileNames res). length name + 9 < 2 ^ 32) \<longrightarrow>
          (sr_args request \<noteq> base @ map JString (dedupedFileNames res)) =
          (unat (getArgMax K) - 32 - base_args_size base -
             unat (asEnviron_size K (spawn_environment K cmd q res since))
           < names_size (dedupedFileNames res)))"
proof -
  let ?names = "dedupedFileNames res"
  let ?ovf0 = "max_files_stdin cmd > 0 \<and> length (resultsArray res) > max_files_stdin cmd"
  from spawn_command_request[OF run req] obtain stdin_file res1 q' args ovf where
    prep: "prepare_stdin K cmd res = Inr (Some (stdin_file, res1))" and
    q': "query cmd = Some q'" and
    comp: "compute_args K cmd res1 (spawn_environment K cmd q' res1 since) (getArgMax K - 32)
             ?ovf0 = Inr (args, ovf)" and
    sargs: "sr_args request = json_array_elems args" and
    senv: "sr_environment request =
             setBool (spawn_environment K cmd q' res1 since) ''WATCHMAN_FILES_OVERFLOW'' ovf"
    by blast
  from prepare_stdin_keeps[OF prep] have names1: "dedupedFileNames res1 = ?names"
    and clock1: "clockAtStartOfQuery res1 = clockAtStartOfQuery res" by simp_all
  have "\<exists>n \<le> length ?names.
          args = JArray (base @ map JString (take n (if append_files cmd then ?names else []))) \<and>
          ovf = (?ovf0 \<or> (append_files cmd \<and> n < length ?names))"
    using compute_args_shape[OF comp arr] unfolding names1 .
  then obtain n where n: "n \<le> length ?names"
    and args: "args = JArray (base @ map JString (take n (if append_files cmd then ?names else [])))"
    and ovf: "ovf = (?ovf0 \<or> (append_files cmd \<and> n < length ?names))"
    by blast
  have sr: "sr_args request = base @ map JString (take n (if append_files cmd then ?names else []))"
    by (simp add: sargs args json_array_elems_def)
  have inj: "inj JString" by (simp add: inj_def)
  have all_iff: "append_files cmd \<Longrightarrow>
      (sr_args request \<noteq> base @ map JString ?names) = (n < length ?names)"
  proof -
    assume "append_files cmd"
    then have "(sr_args request = base @ map JString ?names) = (take n ?names = ?names)"
      using inj by (simp add: sr inj_map_eq_map)
    also have "\<dots> = (length ?names \<le> n)"
      by (metis length_take min.absorb_iff1 min.commute take_all)
    finally show ?thesis by auto
  qed
  have part1: "sr_environment request ''WATCHMAN_FILES_OVERFLOW'' =
           Some (if (0 < max_files_stdin cmd \<and> max_files_stdin cmd < length (resultsArray res)) \<or>
                    (append_files cmd \<and> sr_args request \<noteq> base @ map JString ?names)
                 then ''true'' else ''false'')"
    using all_iff by (auto simp: senv setBool_def ovf)
  have part2: "\<exists>n. sr_args request =
            base @ map JString (take n (if append_files cmd then ?names else []))"
    using sr by blast
  have part3: "(sr_args request \<noteq> base @ map JString ?names) =
          (unat (getArgMax K) - 32 - base_args_size base -
             unat (asEnviron_size K (spawn_environment K cmd q res since))
           < names_size ?names)"
    if h: "append_files cmd \<and> query cmd = Some q \<and>
        32 + base_args_size base +
          unat (asEnviron_size K (spawn_environment K cmd q res since)) \<le> unat (getArgMax K) \<and>
        (\<forall>name \<in> set ?names. length name + 9 < 2 ^ 32)"
  proof -
    let ?e = "spawn_environment K cmd q res since"
    from h q' have qq: "q' = q" by simp
    have env1: "spawn_environment K cmd q' res1 since = ?e"
      by (simp add: qq spawn_environment_truncated[OF clock1])
    from h have af: "append_files cmd" by simp
    from compute_args_append[OF af arr comp] obtain a3 where
      loop: "append_loop ?names (getArgMax K - 32 - of_nat (base_args_size base) -
                asEnviron_size K ?e) (JArray base) ?ovf0 = (a3, args, ovf)"
      by (auto simp: names1 env1)
    from h have short: "\<forall>name \<in> set ?names. length name + 9 < 2 ^ 32" by simp
    from h have fit: "32 + base_args_size base + unat (asEnviron_size K ?e) \<le> unat (getArgMax K)"
      by simp
    have "(args = JArray (base @ map JString ?names)) =
          (names_size ?names \<le>
             unat (getArgMax K - 32 - of_nat (base_args_size base) - asEnviron_size K ?e))"
      by (rule append_loop_all_iff[OF short loop])
    also have "unat (getArgMax K - 32 - of_nat (base_args_size base) - asEnviron_size K ?e) =
               unat (getArgMax K) - 32 - base_args_size base - unat (asEnviron_size K ?e)"
      by (rule unat_budget[OF fit])
    finally have "(args = JArray (base @ map JString ?names)) =
        (names_size ?names \<le>
           unat (getArgMax K) - 32 - base_args_size base - unat (asEnviron_size K ?e))" .
    moreover have "(sr_args request = base @ map JString ?names) =
                   (args = JArray (base @ map JString ?names))"
      by (simp add: sargs args json_array_elems_def)
    ultimately show ?thesis by auto
  qed
  from part1 part2 part3 show ?thesis by blast
qed

lemma scenario_spawn_stdin_limit:
  "\<exists>cmd' request.
     spawn_command scenario_collaborators scenario_root scenario_trigger scenario_result None =
       Inr (cmd', [Child_started request]) \<and>
     sr_args request = [JString ''echo''] \<and>
     sr_stdin request = TempFile [CHR ''a'', CHR 0x0A, CHR ''b'', CHR 0x0A]"
  by (simp add: spawn_command_def prepare_stdin_def bind_def json_to_w_string_def
        compute_args_def working_directory_def spawn_environment_def setBool_def redirect_def
        get_default_def json_array_elems_def
        scenario_collaborators_def scenario_root_def scenario_trigger_def scenario_result_def
        scenario_definition_def scenario_query_def Let_def)


lemmas scenario_defs =
  spawn_command_def prepare_stdin_def bind_def json_to_w_string_def
  compute_args_def working_directory_def spawn_environment_def setBool_def redirect_def
  get_default_def json_array_elems_def json_array_append_new_def strlen_def
  scenario_collaborators_def scenario_root_def scenario_trigger_def scenario_result_def
  scenario_definition_def scenario_query_def Let_def

text \<open>
  The scenario with \<open>append_files\<close> and no limit on the input: in 570 bytes of argument
  space only \<open>a\<close> fits after \<open>echo\<close>, in 4096 bytes all three names do.
\<close>

lemma scenario_spawn_append_small:
  "\<exists>cmd' request.
     spawn_command (scenario_collaborators\<lparr>getArgMax := 570\<rparr>) scenario_root
       (scenario_trigger\<lparr>append_files := True, max_files_stdin := 0\<rparr>) scenario_result None =
       Inr (cmd', [Child_started request]) \<and>
     sr_args request = [JString ''echo'', JString ''a'']"
  by (simp add: scenario_defs)

lemma scenario_spawn_append_large:
  "\<exists>cmd' request.
     spawn_command scenario_collaborators scenario_root
       (scenario_trigger\<lparr>append_files := True, max_files_stdin := 0\<rparr>) scenario_result None =
       Inr (cmd', [Child_started request]) \<and>
     sr_args request = [JString ''echo'', JString ''a'', JString ''b'', JString ''c'']"
  by (simp add: scenario_defs)

text \<open>
  The flag in the spec's scenario (three results, \<open>max_files_stdin = 2\<close>: it is \<open>true\<close>)
  and in its two variants with \<open>append_files\<close>: \<open>true\<close> where a name is left out,
  \<open>false\<close> where all are appended and the names need no more than the budget.
\<close>

lemma files_overflow_flag_scenarios:
  "(\<exists>cmd' request.
      spawn_command scenario_collaborators scenario_root scenario_trigger scenario_result None =
        Inr (cmd', [Child_started request]) \<and>
      sr_stdin request = TempFile [CHR ''a'', CHR 0x0A, CHR ''b'', CHR 0x0A] \<and>
      sr_environment request ''WATCHMAN_FILES_OVERFLOW'' = Some ''true'')
   \<and> (\<exists>cmd' request.
      spawn_command (scenario_collaborators\<lparr>getArgMax := 570\<rparr>) scenario_root
        (scenario_trigger\<lparr>append_files := True, max_files_stdin := 0\<rparr>) scenario_result None =
        Inr (cmd', [Child_started request]) \<and>
      sr_args request = [JString ''echo'', JString ''a''] \<and>
      sr_environment request ''WATCHMAN_FILES_OVERFLOW'' = Some ''true'')
   \<and> (\<exists>cmd' request.
      spawn_command scenario_collaborators scenario_root
        (scenario_trigger\<lparr>append_files := True, max_files_stdin := 0\<rparr>) scenario_result None =
        Inr (cmd', [Child_started request]) \<and>
      sr_args request = [JString ''echo'', JString ''a'', JString ''b'', JString ''c''] \<and>
      sr_environment request ''WATCHMAN_FILES_OVERFLOW'' = Some ''false'' \<and>
      (4096 - 32 - base_args_size [JString ''echo''] - 512 < names_size [''a'', ''b'', ''c'']) = False)"
proof (intro conjI)
  from scenario_spawn_stdin_limit obtain cmd' request where
    run: "spawn_command scenario_collaborators scenario_root scenario_trigger scenario_result None =
            Inr (cmd', [Child_started request])"
    and stdin: "sr_stdin request = TempFile [CHR ''a'', CHR 0x0A, CHR ''b'', CHR 0x0A]"
    by blast
  have "sr_environment request ''WATCHMAN_FILES_OVERFLOW'' = Some ''true''"
    using files_overflow_flag[OF run, of request "[JString ''echo'']" scenario_query]
    by (simp add: scenario_trigger_def scenario_result_def)
  with run stdin show "\<exists>cmd' request.
      spawn_command scenario_collaborators scenario_root scenario_trigger scenario_result None =
        Inr (cmd', [Child_started request]) \<and>
      sr_stdin request = TempFile [CHR ''a'', CHR 0x0A, CHR ''b'', CHR 0x0A] \<and>
      sr_environment request ''WATCHMAN_FILES_OVERFLOW'' = Some ''true''"
    by blast
next
  let ?K = "scenario_collaborators\<lparr>getArgMax := 570\<rparr>"
  let ?cmd = "scenario_trigger\<lparr>append_files := True, max_files_stdin := 0\<rparr>"
  from scenario_spawn_append_small obtain cmd' request where
    run: "spawn_command ?K scenario_root ?cmd scenario_result None =
            Inr (cmd', [Child_started request])"
    and args: "sr_args request = [JString ''echo'', JString ''a'']"
    by blast
  have "sr_environment request ''WATCHMAN_FILES_OVERFLOW'' = Some ''true''"
    using files_overflow_flag[OF run, of request "[JString ''echo'']" scenario_query] args
    by (simp add: scenario_trigger_def scenario_result_def)
  with run args show "\<exists>cmd' request.
      spawn_command ?K scenario_root ?cmd scenario_result None =
        Inr (cmd', [Child_started request]) \<and>
      sr_args request = [JString ''echo'', JString ''a''] \<and>
      sr_environment request ''WATCHMAN_FILES_OVERFLOW'' = Some ''true''"
    by blast
next
  let ?cmd = "scenario_trigger\<lparr>append_files := True, max_files_stdin := 0\<rparr>"
  let ?q = "scenario_query\<lparr>fieldList := [''name'']\<rparr>"
  from scenario_spawn_append_large obtain cmd' request where
    run: "spawn_command scenario_collaborators scenario_root ?cmd scenario_result None =
            Inr (cmd', [Child_started request])"
    and args: "sr_args request = [JString ''echo'', JString ''a'', JString ''b'', JString ''c'']"
    by blast
  have "sr_environment request ''WATCHMAN_FILES_OVERFLOW'' = Some ''false'' \<and>
        (4096 - 32 - base_args_size [JString ''echo''] - 512 < names_size [''a'', ''b'', ''c'']) = False"
    using files_overflow_flag[OF run, of request "[JString ''echo'']" ?q] args
    by (simp add: scenario_trigger_def scenario_result_def scenario_collaborators_def
          base_args_size_def names_size_def strlen_def)
  with run args show "\<exists>cmd' request.
      spawn_command scenario_collaborators scenario_root ?cmd scenario_result None =
        Inr (cmd', [Child_started request]) \<and>
      sr_args request = [JString ''echo'', JString ''a'', JString ''b'', JString ''c''] \<and>
      sr_environment request ''WATCHMAN_FILES_OVERFLOW'' = Some ''false'' \<and>
      (4096 - 32 - base_args_size [JString ''echo''] - 512 < names_size [''a'', ''b'', ''c'']) = False"
    by blast
qed


text \<open>
  Claim C4 says that with \<open>append_files\<close> the flag is \<open>true\<close> if and only if the budget,
  \<open>argMax\<close> less 32 bytes, the base arguments and the environment, is used up before
  every deduplicated name has been appended.  The code keeps the budget in a \<open>size_t\<close>
  and subtracts without a comparison: where the base arguments and the environment
  alone need more than \<open>argMax - 32\<close> bytes the budget wraps around to a huge value.
  With \<open>argMax = 4096\<close>, an environment of 512 bytes and the command \<open>echo\<close> with one
  argument of 4000 bytes, no byte is left for a name; yet all three names are appended
  and the child's \<open>WATCHMAN_FILES_OVERFLOW\<close> is \<open>false\<close>.
\<close>

theorem files_overflow_wraparound:
  "\<exists>cmd' request.
     spawn_command scenario_collaborators scenario_root
       (scenario_trigger\<lparr>command := JArray [JString ''echo'', JString (replicate 4000 (CHR ''x''))],
                          append_files := True, max_files_stdin := 0\<rparr>)
       scenario_result None = Inr (cmd', [Child_started request]) \<and>
     sr_args request =
       [JString ''echo'', JString (replicate 4000 (CHR ''x'')),
        JString ''a'', JString ''b'', JString ''c''] \<and>
     sr_environment request ''WATCHMAN_FILES_OVERFLOW'' = Some ''false'' \<and>
     unat (getArgMax scenario_collaborators) <
       32 + base_args_size [JString ''echo'', JString (replicate 4000 (CHR ''x''))] +
         unat (asEnviron_size scenario_collaborators (sr_environment request))"
  by (simp add: scenario_defs base_args_size_def)

subsection \<open>\<open>maybeSpawn\<close>\<close>




lemma write_names_no_QueryExecError:
  "write_names K names n buf \<noteq> Inl (QueryExecError msg)"
  by (induction names arbitrary: n buf)
     (auto simp: bind_def json_to_w_string_def split: sum.splits json.splits)

lemma measure_base_args_no_QueryExecError:
  "measure_base_args elems rem \<noteq> Inl (QueryExecError msg)"
  by (induction elems arbitrary: rem) (auto split: json.splits)

lemma spawn_command_no_QueryExecError:
  "spawn_command K root cmd res since \<noteq> Inl (QueryExecError msg)"
proof -
  have p: "prepare_stdin K cmd res \<noteq> Inl (QueryExecError msg)"
    using write_names_no_QueryExecError
    by (auto simp: prepare_stdin_def bind_def Let_def
          split: trigger_input_style.splits option.splits sum.splits)
  have c: "compute_args K cmd r e a f \<noteq> Inl (QueryExecError msg)" for r e a f
    using measure_base_args_no_QueryExecError
    by (auto simp: compute_args_def bind_def Let_def split: sum.splits prod.splits)
  have w: "working_directory K root cmd q \<noteq> Inl (QueryExecError msg)" for q
    by (auto simp: working_directory_def bind_def json_to_w_string_def Let_def
          split: option.splits json.splits)
  show ?thesis
    using p c w
    by (auto simp: spawn_command_def bind_def Let_def
          split: sum.splits option.splits prod.splits if_splits)
qed

lemma maybeSpawn_cases:
  assumes "maybeSpawn K root cmd = Inr (didRun, cmd', effs)"
  shows "(view_isVCSOperationInProgress (view root) \<and> \<not> didRun \<and> effs = []) \<or>
         (\<not> view_isVCSOperationInProgress (view root) \<and>
          (\<exists>q. query cmd = Some q \<and>
             ((\<not> didRun \<and> effs = [Query_executed (q\<lparr>sync_timeout := 0\<rparr>)]) \<or>
              (\<exists>res cmd2 did. didRun \<and>
                 w_query_execute K (q\<lparr>sync_timeout := 0\<rparr>) root = Inr res \<and>
                 cmd2 = cmd\<lparr>query := Some (q\<lparr>sync_timeout := 0,
                          since_spec := Some (w_cs_clock (clockAtStartOfQuery res))\<rparr>)\<rparr> \<and>
                 spawn_command K root cmd2 res (since_spec q) = Inr (cmd', did) \<and>
                 effs = [Query_executed (q\<lparr>sync_timeout := 0\<rparr>),
                         Spawn_command_called res (since_spec q)] @ did))))"
proof (cases "view_isVCSOperationInProgress (view root)")
  case True
  with assms show ?thesis by (simp add: maybeSpawn_def)
next
  case False
  with assms obtain q where q: "query cmd = Some q"
    by (cases "query cmd") (simp_all add: maybeSpawn_def)
  show ?thesis
  proof (cases "w_query_execute K (q\<lparr>sync_timeout := 0\<rparr>) root")
    case (Inl err)
    with assms False q show ?thesis
      by (cases err) (simp_all add: maybeSpawn_def catch_QueryExecError_def Let_def)
  next
    case (Inr res)
    show ?thesis
    proof (cases "resultsArray res = []")
      case True
      with assms False q Inr show ?thesis by (simp add: maybeSpawn_def Let_def)
    next
      case ne: False
      let ?cmd2 = "cmd\<lparr>query := Some (q\<lparr>sync_timeout := 0,
                      since_spec := Some (w_cs_clock (clockAtStartOfQuery res))\<rparr>)\<rparr>"
      show ?thesis
      proof (cases "spawn_command K root ?cmd2 res (since_spec q)")
        case (Inl err)
        with assms False q Inr ne spawn_command_no_QueryExecError[of K root ?cmd2 res "since_spec q"]
        show ?thesis
          by (cases err) (simp_all add: maybeSpawn_def catch_QueryExecError_def Let_def)
      next
        case sp: (Inr out)
        obtain cmd3 did where out: "out = (cmd3, did)" by (cases out)
        with assms False q Inr ne sp have "didRun" "cmd' = cmd3"
          "effs = [Query_executed (q\<lparr>sync_timeout := 0\<rparr>),
                   Spawn_command_called res (since_spec q)] @ did"
          by (simp_all add: maybeSpawn_def Let_def)
        with sp out False q Inr show ?thesis by auto
      qed
    qed
  qed
qed




subsection \<open>\<open>append_files\<close> and the deduplicated names\<close>

lemma parse_stdin_property_dedup:
  "parse_stdin_property K trig q1 = Inr (style, q2) \<Longrightarrow> dedup_results q2 = dedup_results q1"
  by (auto simp: parse_stdin_property_def bind_def
        split: option.splits json.splits if_splits sum.splits)

lemma ctor_append_files:
  assumes "TriggerCommand_ctor K denv root trig = Inr cmd"
    and "get_default trig ''append_files'' = Some JTrue"
    and "w_query_parse K (queryDef_of trig) = Inr (Some q0)"
  shows "append_files cmd \<and> (\<exists>q. query cmd = Some q \<and> dedup_results q) \<and>
         (\<exists>base. command cmd = JArray base)"
proof -
  from assms obtain name arg0 argv where
    n: "get_default trig ''name'' = Some (JString name)" and
    c: "get_default trig ''command'' = Some (JArray (arg0 # argv))"
    by (auto simp: TriggerCommand_ctor_def bind_def Let_def
          split: option.splits json.splits list.splits)
  from assms n c obtain style q2 where
    p: "parse_stdin_property K trig (q0\<lparr>dedup_results := True\<rparr>) = Inr (style, q2)"
    by (auto simp: TriggerCommand_ctor_def bind_def Let_def asBool_def split: sum.splits)
  from assms n c p have "append_files cmd \<and> query cmd = Some q2 \<and>
      command cmd = JArray (arg0 # argv)"
    by (auto simp: TriggerCommand_ctor_def bind_def Let_def asBool_def
          split: sum.splits if_splits prod.splits)
  with parse_stdin_property_dedup[OF p] show ?thesis by simp
qed


text \<open>
  Claim C10.  A trigger built from a definition whose \<open>append_files\<close> is true has
  \<open>append_files\<close> set and a query whose \<open>dedup_results\<close> is true, whatever the query
  parser returned for that flag.  Every query \<open>maybeSpawn\<close> then executes carries the
  flag, and the arguments of every child it starts are the command followed by an
  initial part of the \<open>dedupedFileNames\<close> of that query's result.
\<close>

theorem append_files_forces_dedup:
  assumes ctor: "TriggerCommand_ctor K denv root trig = Inr cmd"
    and af: "get_default trig ''append_files'' = Some JTrue"
    and parsed: "w_query_parse K (queryDef_of trig) = Inr (Some q0)"
  shows "append_files cmd \<and> (\<exists>q. query cmd = Some q \<and> dedup_results q)
     \<and> (maybeSpawn K root' cmd = Inr (didRun, cmd', effs) \<and>
        (Child_started request \<in> set effs \<or> Child_failed request \<in> set effs) \<longrightarrow>
          (\<exists>qx res n. dedup_results qx \<and> Query_executed qx \<in> set effs \<and>
             w_query_execute K qx root' = Inr res \<and>
             sr_args request =
               json_array_elems (command cmd) @ map JString (take n (dedupedFileNames res))))"
proof -
  from ctor_append_files[OF ctor af parsed] obtain q base where
    a: "append_files cmd" and q: "query cmd = Some q" and d: "dedup_results q"
    and base: "command cmd = JArray base" by blast
  have spawn: "\<exists>qx res n. dedup_results qx \<and> Query_executed qx \<in> set effs \<and>
             w_query_execute K qx root' = Inr res \<and>
             sr_args request =
               json_array_elems (command cmd) @ map JString (take n (dedupedFileNames res))"
    if run: "maybeSpawn K root' cmd = Inr (didRun, cmd', effs)"
      and req: "Child_started request \<in> set effs \<or> Child_failed request \<in> set effs"
  proof -
    let ?qx = "q\<lparr>sync_timeout := 0\<rparr>"
    from maybeSpawn_cases[OF run] req q obtain res cmd2 did where
      ex: "w_query_execute K ?qx root' = Inr res" and
      cmd2: "cmd2 = cmd\<lparr>query := Some (q\<lparr>sync_timeout := 0,
                          since_spec := Some (w_cs_clock (clockAtStartOfQuery res))\<rparr>)\<rparr>" and
      sp: "spawn_command K root' cmd2 res (since_spec q) = Inr (cmd', did)" and
      effs: "effs = [Query_executed ?qx, Spawn_command_called res (since_spec q)] @ did"
      by auto
    from req effs have req': "Child_started request \<in> set did \<or> Child_failed request \<in> set did"
      by auto
    from spawn_command_request[OF sp req'] obtain stdin_file res1 q' args ovf where
      prep: "prepare_stdin K cmd2 res = Inr (Some (stdin_file, res1))" and
      comp: "compute_args K cmd2 res1 (spawn_environment K cmd2 q' res1 (since_spec q))
               (getArgMax K - 32)
               (max_files_stdin cmd2 > 0 \<and> length (resultsArray res) > max_files_stdin cmd2) =
                 Inr (args, ovf)" and
      sargs: "sr_args request = json_array_elems args"
      by blast
    have base2: "command cmd2 = JArray base" and a2: "append_files cmd2"
      by (simp_all add: cmd2 base a)
    from compute_args_shape[OF comp base2] a2 prepare_stdin_keeps[OF prep]
    obtain n where "args = JArray (base @ map JString (take n (dedupedFileNames res)))"
      by auto
    then have "sr_args request =
        json_array_elems (command cmd) @ map JString (take n (dedupedFileNames res))"
      by (simp add: sargs base json_array_elems_def)
    moreover have "dedup_results ?qx" using d by simp
    moreover have "Query_executed ?qx \<in> set effs" by (simp add: effs)
    ultimately show ?thesis using ex by blast
  qed
  from a q d spawn show ?thesis by blast
qed

text \<open>The scenario's definition with \<open>append_files\<close> and no limit on the input.\<close>

lemma scenario_append_ctor:
  "TriggerCommand_ctor scenario_collaborators Map.empty scenario_root
     (JObject [(''name'', JString ''t''), (''command'', JArray [JString ''echo'']),
               (''stdin'', JString ''NAME_PER_LINE''), (''append_files'', JTrue)]) =
   Inr (scenario_trigger
          \<lparr>definition_json :=
             JObject [(''name'', JString ''t''), (''command'', JArray [JString ''echo'']),
                      (''stdin'', JString ''NAME_PER_LINE''), (''append_files'', JTrue)],
           query := Some (scenario_query\<lparr>dedup_results := True, fieldList := [''name'']\<rparr>),
           append_files := True, max_files_stdin := 0\<rparr>)"
  by (simp add: TriggerCommand_ctor_def scenario_collaborators_def scenario_root_def
        scenario_trigger_def initial_command_def queryDef_of_def
        get_default_def bind_def asBool_def asInt_def parse_stdin_property_def
        parse_redirection_def json_array_elems_def c_str_def)

lemma scenario_append_maybeSpawn:
  "\<exists>cmd' request.
     maybeSpawn scenario_collaborators scenario_root
       (scenario_trigger
          \<lparr>definition_json :=
             JObject [(''name'', JString ''t''), (''command'', JArray [JString ''echo'']),
                      (''stdin'', JString ''NAME_PER_LINE''), (''append_files'', JTrue)],
           query := Some (scenario_query\<lparr>dedup_results := True, fieldList := [''name'']\<rparr>),
           append_files := True, max_files_stdin := 0\<rparr>) =
       Inr (True, cmd',
            [Query_executed (scenario_query\<lparr>dedup_results := True, fieldList := [''name''],
                                             sync_timeout := 0\<rparr>),
             Spawn_command_called scenario_result None, Child_started request])"
  by (simp add: maybeSpawn_def scenario_defs)

text \<open>
  C10 for that definition: the parser returns a query without the flag, the trigger's
  query has it, and the child gets \<open>echo\<close> followed by names of the result.
\<close>

theorem append_files_forces_dedup_witness:
  "\<exists>cmd cmd' request n.
     TriggerCommand_ctor scenario_collaborators Map.empty scenario_root
       (JObject [(''name'', JString ''t''), (''command'', JArray [JString ''echo'']),
                 (''stdin'', JString ''NAME_PER_LINE''), (''append_files'', JTrue)]) = Inr cmd \<and>
     append_files cmd \<and> (\<exists>q. query cmd = Some q \<and> dedup_results q) \<and>
     maybeSpawn scenario_collaborators scenario_root cmd =
       Inr (True, cmd',
            [Query_executed (scenario_query\<lparr>dedup_results := True, fieldList := [''name''],
                                             sync_timeout := 0\<rparr>),
             Spawn_command_called scenario_result None, Child_started request]) \<and>
     sr_args request = [JString ''echo''] @ map JString (take n [''a'', ''b'', ''c''])"
proof -
  let ?def = "JObject [(''name'', JString ''t''), (''command'', JArray [JString ''echo'']),
                 (''stdin'', JString ''NAME_PER_LINE''), (''append_files'', JTrue)]"
  let ?cmd = "scenario_trigger
          \<lparr>definition_json := ?def,
           query := Some (scenario_query\<lparr>dedup_results := True, fieldList := [''name'']\<rparr>),
           append_files := True, max_files_stdin := 0\<rparr>"
  let ?qx = "scenario_query\<lparr>dedup_results := True, fieldList := [''name''], sync_timeout := 0\<rparr>"
  have ctor: "TriggerCommand_ctor scenario_collaborators Map.empty scenario_root ?def = Inr ?cmd"
    by (rule scenario_append_ctor)
  have af: "get_default ?def ''append_files'' = Some JTrue"
    by (simp add: get_default_def)
  have parsed: "w_query_parse scenario_collaborators (queryDef_of ?def) = Inr (Some scenario_query)"
    by (simp add: scenario_collaborators_def)
  from scenario_append_maybeSpawn obtain cmd' request where
    run: "maybeSpawn scenario_collaborators scenario_root ?cmd =
       Inr (True, cmd',
            [Query_executed ?qx, Spawn_command_called scenario_result None, Child_started request])"
    by blast
  note inst = append_files_forces_dedup[OF ctor af parsed, of scenario_root True cmd'
      "[Query_executed ?qx, Spawn_command_called scenario_result None, Child_started request]"
      request]
  from inst run obtain qx res n where
    "Query_executed qx \<in> set [Query_executed ?qx, Spawn_command_called scenario_result None,
        Child_started request]"
    "w_query_execute scenario_collaborators qx scenario_root = Inr res"
    "sr_args request = json_array_elems (command ?cmd) @ map JString (take n (dedupedFileNames res))"
    by auto
  then have "sr_args request = [JString ''echo''] @ map JString (take n [''a'', ''b'', ''c''])"
    by (auto simp: scenario_collaborators_def scenario_result_def scenario_trigger_def
          json_array_elems_def)
  moreover from inst have "append_files ?cmd \<and> (\<exists>q. query ?cmd = Some q \<and> dedup_results q)"
    by blast
  ultimately show ?thesis using ctor run by blast
qed


subsection \<open>\<open>state-leave\<close>\<close>

text \<open>
  Claim C9.  For a \<open>state-leave\<close> command whose arguments parse: if the session holds
  no assertion under the name, the handler answers "state X is not asserted"; if the
  weak pointer it holds is dead, "state X was implicitly vacated"; if the assertion is
  \<open>Done\<close>, it answers with an error as well (the same message); in all three cases
  nothing else changes.  Otherwise it sets the disposition to \<open>PendingLeave\<close>, removes
  the name from the session, sends the response with \<open>root\<close> and \<open>state-leave\<close>, and
  goes on to the cookie sync.
\<close>

theorem state_leave_outcomes:
  assumes "parse_state_arg default_sync client args = Inr (client, Some parsed)"
  shows "(states client (sa_name parsed) = None \<longrightarrow>
           cmd_state_leave default_sync root client args =
             Inr (send_error_response client
                    (''state '' @ c_str (sa_name parsed) @ '' is not asserted''), root, None))
       \<and> (states client (sa_name parsed) = Some w \<and> assertion_store root w = None \<longrightarrow>
           cmd_state_leave default_sync root client args =
             Inr (send_error_response client
                    (''state '' @ c_str (sa_name parsed) @ '' was implicitly vacated''),
                  root, None))
       \<and> (states client (sa_name parsed) = Some w \<and> assertion_store root w = Some obj \<and>
          disposition obj = Done \<longrightarrow>
           cmd_state_leave default_sync root client args =
             Inr (send_error_response client
                    (''state '' @ c_str (sa_name parsed) @ '' was implicitly vacated''),
                  root, None))
       \<and> (states client (sa_name parsed) = Some w \<and> assertion_store root w = Some obj \<and>
          disposition obj \<noteq> Done \<longrightarrow>
           cmd_state_leave default_sync root client args =
             Inr (client\<lparr>states := (states client)(sa_name parsed := None),
                        sent := sent client @
                          [Response (JObject [(''root'', JString (root_path root)),
                                              (''state-leave'', JString (sa_name parsed))])]\<rparr>,
                  root\<lparr>assertion_store :=
                         (assertion_store root)(w \<mapsto> obj\<lparr>disposition := PendingLeave\<rparr>)\<rparr>,
                  Some (w, parsed)))"
  using assms
  by (auto simp: cmd_state_leave_def bind_def Let_def set_disposition_def
        send_and_dispose_response_def)

text \<open>The arguments \<open>[state-leave, /repo, A]\<close> parse to the name \<open>A\<close>.\<close>

lemma parse_state_A:
  "parse_state_arg 60000 c state_A_args = Inr (c, Some state_A_arg)"
  by (simp add: parse_state_arg_def state_A_args_def state_A_arg_def json_array_size_def
        json_array_elems_def)

text \<open>
  C9 for a session that holds nothing, one whose pointer is dead, one whose assertion
  is \<open>Done\<close>, and one whose assertion is \<open>Asserted\<close>.
\<close>

theorem state_leave_outcomes_witness:
  "cmd_state_leave 60000 waiting_root (client_of_A\<lparr>states := Map.empty\<rparr>) state_A_args =
     Inr (send_error_response (client_of_A\<lparr>states := Map.empty\<rparr>) ''state A is not asserted'',
          waiting_root, None)
   \<and> cmd_state_leave 60000 waiting_root (client_of_A\<lparr>states := [''A'' \<mapsto> 3]\<rparr>) state_A_args =
     Inr (send_error_response (client_of_A\<lparr>states := [''A'' \<mapsto> 3]\<rparr>)
            ''state A was implicitly vacated'', waiting_root, None)
   \<and> cmd_state_leave 60000
       (waiting_root\<lparr>assertion_store :=
          [1 \<mapsto> \<lparr>a_name = ''A'', disposition = Done, enterPayload = None\<rparr>]\<rparr>)
       client_of_A state_A_args =
     Inr (send_error_response client_of_A ''state A was implicitly vacated'',
          waiting_root\<lparr>assertion_store :=
            [1 \<mapsto> \<lparr>a_name = ''A'', disposition = Done, enterPayload = None\<rparr>]\<rparr>, None)
   \<and> cmd_state_leave 60000
       (waiting_root\<lparr>assertion_store :=
          [1 \<mapsto> \<lparr>a_name = ''A'', disposition = Asserted, enterPayload = None\<rparr>]\<rparr>)
       client_of_A state_A_args =
     Inr (\<lparr>states = Map.empty,
            sent = [Response (JObject [(''root'', JString ''/repo''),
                                       (''state-leave'', JString ''A'')])]\<rparr>,
          waiting_root\<lparr>assertion_store :=
            [1 \<mapsto> \<lparr>a_name = ''A'', disposition = PendingLeave, enterPayload = None\<rparr>]\<rparr>,
          Some (1, state_A_arg))"
  using state_leave_outcomes[where client = "client_of_A\<lparr>states := Map.empty\<rparr>"
      and root = waiting_root, OF parse_state_A]
    state_leave_outcomes[where client = "client_of_A\<lparr>states := [''A'' \<mapsto> 3]\<rparr>"
      and root = waiting_root and w = 3, OF parse_state_A]
    state_leave_outcomes[where client = client_of_A and w = 1
      and root = "waiting_root\<lparr>assertion_store :=
          [1 \<mapsto> \<lparr>a_name = ''A'', disposition = Done, enterPayload = None\<rparr>]\<rparr>"
      and obj = "\<lparr>a_name = ''A'', disposition = Done, enterPayload = None\<rparr>", OF parse_state_A]
    state_leave_outcomes[where client = client_of_A and w = 1
      and root = "waiting_root\<lparr>assertion_store :=
          [1 \<mapsto> \<lparr>a_name = ''A'', disposition = Asserted, enterPayload = None\<rparr>]\<rparr>"
      and obj = "\<lparr>a_name = ''A'', disposition = Asserted, enterPayload = None\<rparr>",
      OF parse_state_A]
  by (simp add: client_of_A_def state_A_arg_def waiting_root_def c_str_def)


subsection \<open>\<open>state-enter\<close>: the completion of the cookie sync\<close>

lemma isFront_set_disposition:
  "isFront (set_disposition root a d) b = isFront root b"
  by (auto simp: isFront_def set_disposition_def split: option.splits list.splits)

lemma success_front:
  assumes "assertion_store root a = Some obj" and "isFront root a"
  shows "state_enter_sync_done True a parsed root =
           root\<lparr>assertion_store := (assertion_store root)(a \<mapsto> obj\<lparr>disposition := Asserted\<rparr>),
                unilateralResponses := unilateralResponses root @ [state_enter_payload root parsed]\<rparr>"
proof -
  have "state_enter_sync_done True a parsed root =
          enqueue (set_disposition root a Asserted) (state_enter_payload root parsed)"
    using assms(2) by (simp add: state_enter_sync_done_def Let_def isFront_set_disposition)
  then show ?thesis
    using assms(1) by (simp add: enqueue_def set_disposition_def)
qed

lemma success_not_front:
  assumes "assertion_store root a = Some obj" and "\<not> isFront root a"
  shows "state_enter_sync_done True a parsed root =
           root\<lparr>assertion_store := (assertion_store root)
                  (a \<mapsto> obj\<lparr>disposition := Asserted,
                           enterPayload := Some (state_enter_payload root parsed)\<rparr>)\<rparr>"
proof -
  have "state_enter_sync_done True a parsed root =
          set_enterPayload (set_disposition root a Asserted) a
            (Some (state_enter_payload root parsed))"
    using assms(2) by (simp add: state_enter_sync_done_def Let_def isFront_set_disposition)
  then show ?thesis
    using assms(1) by (simp add: set_enterPayload_def set_disposition_def)
qed

lemma removeAssertion_no_payload:
  assumes "assertion_store root a = Some obj" and "enterPayload obj = None"
  shows "unilateralResponses (removeAssertion root a) = unilateralResponses root"
  using assms
  by (auto simp: removeAssertion_def Let_def set_disposition_def
        split: option.splits list.splits)

lemma removeAssertion_queued:
  assumes st: "assertion_store root a = Some obj"
    and q: "assertedStates root (a_name obj) = Some queue"
    and mem: "a \<in> set queue" and dist: "distinct queue"
  shows "assertion_store (removeAssertion root a) a = Some (obj\<lparr>disposition := Done\<rparr>)"
    and "(case assertedStates (removeAssertion root a) (a_name obj) of
            None \<Rightarrow> True | Some q' \<Rightarrow> a \<notin> set q')"
proof -
  show "assertion_store (removeAssertion root a) a = Some (obj\<lparr>disposition := Done\<rparr>)"
  proof (cases "remove1 a queue")
    case Nil
    with st q mem show ?thesis
      by (simp add: removeAssertion_def Let_def set_disposition_def)
  next
    case (Cons front rest)
    then have "front \<in> set (remove1 a queue)" by simp
    with dist have ne: "front \<noteq> a" by simp
    with st q mem Cons show ?thesis
      by (auto simp: removeAssertion_def Let_def set_disposition_def set_enterPayload_def
            enqueue_def split: option.splits)
  qed
  show "(case assertedStates (removeAssertion root a) (a_name obj) of
            None \<Rightarrow> True | Some q' \<Rightarrow> a \<notin> set q')"
  proof (cases "remove1 a queue")
    case Nil
    with st q mem show ?thesis
      by (simp add: removeAssertion_def Let_def set_disposition_def)
  next
    case (Cons front rest)
    have "a \<notin> set (remove1 a queue)" using dist by simp
    with Cons have "a \<notin> set (front # rest)" by simp
    with st q mem Cons show ?thesis
      by (auto simp: removeAssertion_def Let_def set_disposition_def set_enterPayload_def
            enqueue_def split: option.splits)
  qed
qed

text \<open>
  What the completion of the cookie sync does, for every root and assertion.  When the
  sync succeeds, the handler sets the disposition to \<open>Asserted\<close> and, in the same step
  under the lock, enqueues the enter payload on the unilateral publisher if the
  assertion is the head of its FIFO, and otherwise stores it in \<open>enterPayload\<close>.  When
  the sync fails, the handler only calls \<open>removeAssertion\<close>: the assertion, which has
  no payload yet, leaves the FIFO and is \<open>Done\<close>, and the publisher receives nothing.
\<close>

lemma state_enter_sync_done_cases:
  assumes st: "assertion_store root a = Some obj"
  shows "(isFront root a \<longrightarrow>
           state_enter_sync_done True a parsed root =
             root\<lparr>assertion_store := (assertion_store root)(a \<mapsto> obj\<lparr>disposition := Asserted\<rparr>),
                  unilateralResponses :=
                    unilateralResponses root @ [state_enter_payload root parsed]\<rparr>)
       \<and> (\<not> isFront root a \<longrightarrow>
           state_enter_sync_done True a parsed root =
             root\<lparr>assertion_store := (assertion_store root)
                    (a \<mapsto> obj\<lparr>disposition := Asserted,
                             enterPayload := Some (state_enter_payload root parsed)\<rparr>)\<rparr>)
       \<and> unilateralResponses (state_enter_sync_done True a parsed root) =
           unilateralResponses root @
             (if isFront root a then [state_enter_payload root parsed] else [])
       \<and> isFront (state_enter_sync_done True a parsed root) a = isFront root a
       \<and> state_enter_sync_done False a parsed root = removeAssertion root a
       \<and> (enterPayload obj = None \<longrightarrow>
           unilateralResponses (state_enter_sync_done False a parsed root) =
             unilateralResponses root)
       \<and> (assertedStates root (a_name obj) = Some queue \<and> a \<in> set queue \<and> distinct queue \<longrightarrow>
           assertion_store (state_enter_sync_done False a parsed root) a =
             Some (obj\<lparr>disposition := Done\<rparr>) \<and>
           (case assertedStates (state_enter_sync_done False a parsed root) (a_name obj) of
              None \<Rightarrow> True
            | Some q' \<Rightarrow> a \<notin> set q'))"
proof -
  have f: "state_enter_sync_done False a parsed root = removeAssertion root a"
    by (simp add: state_enter_sync_done_def)
  have front: "isFront (state_enter_sync_done True a parsed root) a = isFront root a"
  proof (cases "isFront root a")
    case True
    then show ?thesis
      using st by (simp add: success_front[OF st True]) (simp add: isFront_def)
  next
    case False
    then show ?thesis
      using st by (simp add: success_not_front[OF st False]) (simp add: isFront_def)
  qed
  have pub: "unilateralResponses (state_enter_sync_done True a parsed root) =
           unilateralResponses root @
             (if isFront root a then [state_enter_payload root parsed] else [])"
    using success_front[OF st, of parsed] success_not_front[OF st, of parsed]
    by (cases "isFront root a") simp_all
  show ?thesis
    using success_front[OF st, of parsed] success_not_front[OF st, of parsed] front pub
      removeAssertion_queued[OF st, of queue] removeAssertion_no_payload[OF st]
    unfolding f by blast
qed

lemmas state_defs =
  state_enter_sync_done_def removeAssertion_def isFront_def set_disposition_def
  set_enterPayload_def enqueue_def leave_state_def state_enter_payload_def
  state_leave_payload_def waiting_root_def state_A_arg_def Let_def

text \<open>
  Claim C2 says that the \<open>state-enter\<close> payload of an assertion whose cookie sync
  succeeded is broadcast exactly once.  The code misses the assertion that leaves the
  FIFO before it reaches the head.  On the root with two assertions of \<open>A\<close>, the sync
  of the second succeeds: the second is not the head, the publisher receives nothing
  and the payload is stored.  Then the client of the second disconnects:
  \<open>w_client_vacate_states\<close> calls \<open>leave_state\<close> with \<open>abandoned\<close> set and no metadata.
  The publisher receives the \<open>state-leave\<close> of the second assertion, the assertion is
  \<open>Done\<close> and out of the FIFO with the payload still stored: its \<open>state-leave\<close> was
  broadcast, its \<open>state-enter\<close> never is.
\<close>

theorem state_leave_without_state_enter:
  "\<not> isFront waiting_root 2
   \<and> unilateralResponses (state_enter_sync_done True 2 state_A_arg waiting_root) = []
   \<and> assertion_store (state_enter_sync_done True 2 state_A_arg waiting_root) 2 =
       Some \<lparr>a_name = ''A'', disposition = Asserted,
             enterPayload = Some (state_enter_payload waiting_root state_A_arg)\<rparr>
   \<and> unilateralResponses
       (snd (leave_state (Some (client_of_A\<lparr>states := [''A'' \<mapsto> 2]\<rparr>)) 2 True None
               (state_enter_sync_done True 2 state_A_arg waiting_root))) =
       [state_leave_payload waiting_root ''A'' None True]
   \<and> state_leave_payload waiting_root ''A'' None True \<noteq>
       state_enter_payload waiting_root state_A_arg
   \<and> assertedStates
       (snd (leave_state (Some (client_of_A\<lparr>states := [''A'' \<mapsto> 2]\<rparr>)) 2 True None
               (state_enter_sync_done True 2 state_A_arg waiting_root))) ''A'' = Some [1]
   \<and> assertion_store
       (snd (leave_state (Some (client_of_A\<lparr>states := [''A'' \<mapsto> 2]\<rparr>)) 2 True None
               (state_enter_sync_done True 2 state_A_arg waiting_root))) 2 =
       Some \<lparr>a_name = ''A'', disposition = Done,
             enterPayload = Some (state_enter_payload waiting_root state_A_arg)\<rparr>"
  by (simp add: state_defs)


end
